theory Spec2Isabelle
  imports Main "HOL-Library.Word"
begin

section \<open>cbauthimpl: data model\<close>

text \<open>
  A shallow embedding of package \<open>cbauthimpl\<close>. Go strings are \<open>string\<close>, a nil pointer or
  nil error is \<open>None\<close>, a Go \<open>(value, error)\<close> result is a pair whose second component is
  an \<open>error option\<close>. Mutation of the service structure is explicit state passing.
\<close>

subsection \<open>Errors, panics and outcomes\<close>

text \<open>
  The three package-level error values, the two errors the package formats itself
  (\<open>ErrAuthStatus st\<close> is "Expecting 200 or 401 from ns_server auth endpoint. Got: st",
  \<open>ErrReturnCode n\<close> is "Unexpected return code n"), and \<open>OtherError\<close> for every error
  value made outside the package (transport, URL parsing, JSON decoding, the stale
  reasons handed to \<open>ResetSvc\<close>). \<open>URLError op url err\<close> is the \<open>*url.Error\<close> in which
  \<open>http.Client\<close> wraps the error \<open>err\<close> of a request.
\<close>

datatype error =
    ErrNoAuth
  | ErrCallbackAlreadyRegistered
  | ErrUserNotFound
  | ErrAuthStatus string
  | ErrReturnCode int
  | OtherError string
  | URLError string string error

text \<open>
  \<open>MustNotHappen e\<close> is the panic "Must not happen: " followed by the text of \<open>e\<close>;
  \<open>IndexOutOfRange i n\<close> is the run-time panic of indexing a slice of length \<open>n\<close> at \<open>i\<close>.
\<close>

datatype panic =
    PanicString string
  | PanicError error
  | MustNotHappen error
  | IndexOutOfRange nat nat
  | NilDereference

text \<open>
  What a call does: it panics, it blocks (on the not-yet-fresh channel or on a full
  semaphore; another goroutine has to act before it can go on), or it returns.
\<close>

datatype 'a outcome = Panics panic | Blocks | Returns 'a

subsection \<open>Configuration\<close>

record TLSConfig =
  MinVersion :: "16 word"
  CipherSuites :: "16 word list"
  CipherSuiteNames :: "string list"
  CipherSuiteOpenSSLNames :: "string list"
  PreferServerCipherSuites :: bool

record tlsConfigImport =
  MinTLSVersion :: string
  Ciphers :: "16 word list"
  CipherNames :: "string list"
  CipherOpenSSLNames :: "string list"
  CipherOrder :: bool

record Node =
  Host :: string
  User :: string
  Password :: string
  Ports :: "int list"
  Local :: bool

record credsDB =
  nodes :: "Node list"
  authCheckURL :: string
  permissionCheckURL :: string
  specialUser :: string
  specialPassword :: string
  permissionsVersion :: string
  authVersion :: string
  certVersion :: int
  extractUserFromCertURL :: string
  clientCertAuthState :: string
  clientCertAuthVersion :: string
  tlsConfig :: TLSConfig

record Cache =
  Nodes :: "Node list"
  AuthCheckURL :: string
  PermissionCheckURL :: string
  SpecialUser :: string
  PermissionsVersion :: string
  AuthVersion :: string
  CertVersion :: int
  ExtractUserFromCertURL :: string
  ClientCertAuthState :: string
  ClientCertAuthVersion :: string
  TLSConfigImport :: tlsConfigImport

subsection \<open>The LRU cache\<close>

text \<open>
  Modelled from the spec: the type \<open>LRUCache\<close> with \<open>NewLRUCache\<close>, \<open>Get\<close> and \<open>Set\<close>, which
  the package uses but whose source file is not among the sources. The spec (4.1): the
  capacity is fixed at construction; \<open>get(key) -> (value, found)\<close>, and a hit refreshes
  recency; \<open>put(key, value)\<close> at capacity evicts the single least-recently-used entry
  before inserting; there is no expiry. The entries are kept most recently used first.
\<close>

record ('k, 'v) LRUCache =
  maxSize :: nat
  items :: "('k \<times> 'v) list"

definition NewLRUCache :: "nat \<Rightarrow> ('k, 'v) LRUCache" where
  "NewLRUCache n = \<lparr>maxSize = n, items = []\<rparr>"

definition touch :: "'k \<Rightarrow> 'v \<Rightarrow> ('k \<times> 'v) list \<Rightarrow> ('k \<times> 'v) list" where
  "touch k v xs = (k, v) # filter (\<lambda>e. fst e \<noteq> k) xs"

definition LRUCache_Get :: "('k, 'v) LRUCache \<Rightarrow> 'k \<Rightarrow> 'v option \<times> ('k, 'v) LRUCache" where
  "LRUCache_Get c k =
     (case map_of (items c) k of
        None \<Rightarrow> (None, c)
      | Some v \<Rightarrow> (Some v, c\<lparr>items := touch k v (items c)\<rparr>))"

definition LRUCache_Set :: "('k, 'v) LRUCache \<Rightarrow> 'k \<Rightarrow> 'v \<Rightarrow> ('k, 'v) LRUCache" where
  "LRUCache_Set c k v =
     (case map_of (items c) k of
        Some old \<Rightarrow> c\<lparr>items := touch k v (items c)\<rparr>
      | None \<Rightarrow>
          (if maxSize c \<le> length (items c)
           then c\<lparr>items := (k, v) # butlast (items c)\<rparr>
           else c\<lparr>items := (k, v) # items c\<rparr>))"

subsection \<open>HTTP requests and responses\<close>

text \<open>
  A header is modelled with one value per name: \<open>Get\<close> gives the empty string for a
  missing name and \<open>Set\<close> replaces the value, both under the same canonical form of the
  name. \<open>RawQuery\<close> is \<open>None\<close> while the query is the one of the URL text, and the list of
  the values set (in the key order of \<open>Values.Encode\<close>) once the code overwrites it.
  \<open>TLS\<close> is the connection state of an inbound request (\<open>None\<close> on plain HTTP).
  \<open>RespBody\<close> is the body as read and decoded into the fields \<open>User\<close> and \<open>Domain\<close>,
  or the error of reading or decoding it.
\<close>

type_synonym Header = "string \<rightharpoonup> string"

record Certificate =
  Raw :: string

record ConnectionState =
  PeerCertificates :: "Certificate list"

record Request =
  Method :: string
  URL :: string
  RawQuery :: "(string \<times> string) list option"
  Header :: Header
  Body :: string
  TLS :: "ConnectionState option"

record Response =
  StatusCode :: int
  Status :: string
  RespBody :: "error + (string \<times> string)"

subsection \<open>The Go standard library, as parameters\<close>

text \<open>
  The functions of the Go standard library whose result the package branches on are not
  part of the repository; they are taken as parameters. \<open>ParseIP\<close> is \<open>net.ParseIP\<close>
  (\<open>None\<close> is the nil IP), \<open>IsLoopback\<close> and \<open>Equal\<close> are the methods of a non-nil
  \<open>net.IP\<close>, \<open>urlParse\<close> is the error of \<open>url.Parse\<close> (the only way \<open>http.NewRequest\<close>
  fails for the constant methods used here), \<open>md5sum\<close> is the MD5 digest and
  \<open>base64\<close> the standard encoding used by \<open>SetBasicAuth\<close>. \<open>httpClientOf rt\<close> is the
  method \<open>Do\<close> of \<open>&http.Client{Transport: rt}\<close>: it sends through the round tripper
  \<open>rt\<close>, follows redirects and wraps the errors of the transport. A round tripper
  answers a request given the requests it was handed before; \<open>Do\<close> answers a request
  given the requests \<open>Do\<close> was handed before.
\<close>

type_synonym RoundTripper = "Request list \<Rightarrow> Request \<Rightarrow> error + Response"

type_synonym Client = "Request list \<Rightarrow> Request \<Rightarrow> error + Response"

record 'ip golib =
  ParseIP :: "string \<Rightarrow> 'ip option"
  IsLoopback :: "'ip \<Rightarrow> bool"
  Equal :: "'ip \<Rightarrow> 'ip \<Rightarrow> bool"
  urlParse :: "string \<Rightarrow> error option"
  md5sum :: "string \<Rightarrow> string"
  base64 :: "string \<Rightarrow> string"
  httpClientOf :: "RoundTripper \<Rightarrow> Client"

definition Header_Get :: "Header \<Rightarrow> string \<Rightarrow> string" where
  "Header_Get h name = (case h name of None \<Rightarrow> [] | Some v \<Rightarrow> v)"

definition Header_Set :: "Header \<Rightarrow> string \<Rightarrow> string \<Rightarrow> Header" where
  "Header_Set h name v = h(name \<mapsto> v)"

definition NewRequest :: "'ip golib \<Rightarrow> string \<Rightarrow> string \<Rightarrow> string \<Rightarrow> error + Request" where
  "NewRequest L method url body =
     (case urlParse L url of
        Some e \<Rightarrow> Inl e
      | None \<Rightarrow> Inr \<lparr>Method = method, URL = url, RawQuery = None, Header = Map.empty,
                       Body = body, TLS = None\<rparr>)"

definition SetBasicAuth :: "'ip golib \<Rightarrow> string \<Rightarrow> string \<Rightarrow> Request \<Rightarrow> Request" where
  "SetBasicAuth L username pwd req =
     req\<lparr>Header := Header_Set (Header req) ''Authorization''
                      (''Basic '' @ base64 L (username @ '':'' @ pwd))\<rparr>"

definition tokenHeader :: string where
  "tokenHeader = ''ns-server-ui''"

definition IsAuthTokenPresent :: "Request \<Rightarrow> bool" where
  "IsAuthTokenPresent req = (Header_Get (Header req) tokenHeader = ''yes'')"

definition copyHeader :: "string \<Rightarrow> Header \<Rightarrow> Header \<Rightarrow> Header" where
  "copyHeader name from to =
     (let val = Header_Get from name in if val \<noteq> [] then Header_Set to name val else to)"

section \<open>Host and port matching\<close>

text \<open>
  \<open>IsLoopback\<close> on the nil IP is false in Go (a nil IP has length 0), which is the
  \<open>None\<close> branch of \<open>ipIsLoopback\<close>.
\<close>

definition ipIsLoopback :: "'ip golib \<Rightarrow> 'ip option \<Rightarrow> bool" where
  "ipIsLoopback L ip = (case ip of None \<Rightarrow> False | Some a \<Rightarrow> IsLoopback L a)"

definition matchHost :: "'ip golib \<Rightarrow> Node \<Rightarrow> string \<Rightarrow> bool" where
  "matchHost L n host =
     (let NodeHostIP = ParseIP L (Host n);
          HostIP = ParseIP L host
      in if ipIsLoopback L NodeHostIP then True
         else if ipIsLoopback L HostIP \<and> Local n then True
         else (case (NodeHostIP, HostIP) of
                 (Some a, Some b) \<Rightarrow> Equal L b a
               | _ \<Rightarrow> host = Host n))"

fun portsLoop :: "int list \<Rightarrow> int \<Rightarrow> Node \<Rightarrow> string \<times> string" where
  "portsLoop [] port n = ('''', '''')"
| "portsLoop (p # ps) port n = (if p = port then (User n, Password n) else portsLoop ps port n)"

definition getMemcachedCreds :: "'ip golib \<Rightarrow> Node \<Rightarrow> string \<Rightarrow> int \<Rightarrow> string \<times> string" where
  "getMemcachedCreds L n host port =
     (if \<not> matchHost L n host then ('''', '''') else portsLoop (Ports n) port n)"

section \<open>Identities and cache keys\<close>

text \<open>
  \<open>CredsImpl\<close> holds the snapshot it was made from; its pointer back to the service is
  the state argument of \<open>IsAllowed\<close>.
\<close>

record CredsImpl =
  name :: string
  domain :: string
  password :: string
  db :: credsDB

datatype userPermission = userPermission string string string string

datatype userPassword = userPassword string string string

datatype userIdentity = userIdentity string string

datatype clienCertHash = clienCertHash string string

definition CredsImpl_Name :: "CredsImpl \<Rightarrow> string" where
  "CredsImpl_Name c = name c"

definition CredsImpl_Domain :: "CredsImpl \<Rightarrow> string" where
  "CredsImpl_Domain c =
     (if domain c = ''admin'' \<or> domain c = ''ro_admin'' then ''builtin'' else domain c)"

definition verifySpecialCreds :: "credsDB \<Rightarrow> string \<Rightarrow> string \<Rightarrow> bool" where
  "verifySpecialCreds d user pwd =
     (length user > 0 \<and> hd user = CHR ''@'' \<and> pwd = specialPassword d)"

section \<open>The TLS notifier\<close>

text \<open>
  The channel of capacity one is the flag \<open>ch\<close> (a notification is pending). A callback
  is a function on the state \<open>'w\<close> of whoever registered it, returning its error.
\<close>

type_synonym 'w TLSRefreshCallback = "'w \<Rightarrow> error option \<times> 'w"

record 'w tlsNotifier =
  ch :: bool
  callback :: "'w TLSRefreshCallback option"

definition newTLSNotifier :: "'w tlsNotifier" where
  "newTLSNotifier = \<lparr>ch = False, callback = None\<rparr>"

definition notifyTLSChangeLocked :: "'w tlsNotifier \<Rightarrow> 'w tlsNotifier" where
  "notifyTLSChangeLocked n = (if \<not> ch n then n\<lparr>ch := True\<rparr> else n)"

definition notifyTLSChange :: "'w tlsNotifier \<Rightarrow> 'w tlsNotifier" where
  "notifyTLSChange n = notifyTLSChangeLocked n"

definition registerCallback ::
  "'w tlsNotifier \<Rightarrow> 'w TLSRefreshCallback option \<Rightarrow> error option \<times> 'w tlsNotifier" where
  "registerCallback n cb =
     (if callback n \<noteq> None then (Some ErrCallbackAlreadyRegistered, n)
      else (None, notifyTLSChangeLocked (n\<lparr>callback := cb\<rparr>)))"

definition getCallback :: "'w tlsNotifier \<Rightarrow> 'w TLSRefreshCallback option" where
  "getCallback n = callback n"

definition maybeExecuteCallback :: "'w tlsNotifier \<Rightarrow> 'w \<Rightarrow> error option \<times> 'w" where
  "maybeExecuteCallback n w =
     (case getCallback n of Some cb \<Rightarrow> cb w | None \<Rightarrow> (None, w))"

text \<open>
  One round of \<open>loop\<close>: the \<open>select\<close> takes the retry timer (possible only while one is
  armed) or the pending notification (possible only while \<open>ch\<close> holds one); \<open>None\<close> when
  the chosen case cannot fire. The boolean is "a retry timer is armed".
\<close>

datatype wake = RetryTimer | Notification

definition loop_body :: "'w tlsNotifier \<Rightarrow> bool \<Rightarrow> 'w \<Rightarrow> 'w tlsNotifier \<times> bool \<times> 'w" where
  "loop_body n retry w =
     (case maybeExecuteCallback n w of
        (None, w') \<Rightarrow> (n, False, w')
      | (Some err, w') \<Rightarrow> (n, True, w'))"

definition loop_round ::
  "'w tlsNotifier \<Rightarrow> bool \<Rightarrow> wake \<Rightarrow> 'w \<Rightarrow> ('w tlsNotifier \<times> bool \<times> 'w) option" where
  "loop_round n retry ev w =
     (case ev of
        RetryTimer \<Rightarrow> (if retry then Some (loop_body n False w) else None)
      | Notification \<Rightarrow> (if ch n then Some (loop_body (n\<lparr>ch := False\<rparr>) retry w) else None))"

section \<open>The service\<close>

text \<open>
  \<open>freshChan\<close> says whether the not-yet-fresh channel exists (the code sets the field to
  nil as soon as it closes the channel). A cache is \<open>None\<close> until its \<open>sync.Once\<close> has
  run. \<open>httpClient\<close> is the method \<open>Do\<close> of the service's \<open>http.Client\<close>: its answer may
  depend on the requests it was handed so far, which \<open>outbound\<close> records, oldest first;
  \<open>outbound\<close> is the only field that is not a field of the Go structure. The semaphore
  is its channel: capacity and tokens inside.
\<close>

record semaphore =
  slots :: nat
  held :: nat

record 'w Svc =
  db :: "credsDB option"
  staleErr :: "error option"
  freshChan :: bool
  upCache :: "(userPermission, bool) LRUCache option"
  authCache :: "(userPassword, userIdentity) LRUCache option"
  clientCertCache :: "(clienCertHash, userIdentity) LRUCache option"
  httpClient :: Client
  outbound :: "Request list"
  semaphore :: semaphore
  tlsNotifier :: "'w tlsNotifier"

definition semaphore_wait :: "semaphore \<Rightarrow> semaphore option" where
  "semaphore_wait m = (if held m < slots m then Some (m\<lparr>held := held m + 1\<rparr>) else None)"

definition semaphore_signal :: "semaphore \<Rightarrow> semaphore" where
  "semaphore_signal m = m\<lparr>held := held m - 1\<rparr>"

definition httpClient_Do :: "'w Svc \<Rightarrow> Request \<Rightarrow> (error + Response) \<times> 'w Svc" where
  "httpClient_Do s req = (httpClient s (outbound s) req, s\<lparr>outbound := outbound s @ [req]\<rparr>)"

subsection \<open>Building a snapshot\<close>

text \<open>
  \<open>strings.ToLower\<close> on the ASCII letters; no other character lowers to a letter of
  "tlsv1.2", so the comparisons of \<open>minTLSVersion\<close> see the same result.
\<close>

definition toLower :: "string \<Rightarrow> string" where
  "toLower str =
     map (\<lambda>c. let k = (of_char c :: nat) in if 65 \<le> k \<and> k \<le> 90 then char_of (k + 32) else c) str"

definition VersionTLS10 :: "16 word" where "VersionTLS10 = 0x0301"
definition VersionTLS11 :: "16 word" where "VersionTLS11 = 0x0302"
definition VersionTLS12 :: "16 word" where "VersionTLS12 = 0x0303"

definition minTLSVersion :: "string \<Rightarrow> 16 word" where
  "minTLSVersion str =
     (let l = toLower str
      in if l = ''tlsv1'' then VersionTLS10
         else if l = ''tlsv1.1'' then VersionTLS11
         else if l = ''tlsv1.2'' then VersionTLS12
         else VersionTLS10)"

definition importTLSConfig :: "tlsConfigImport \<Rightarrow> TLSConfig" where
  "importTLSConfig cfg =
     \<lparr>MinVersion = minTLSVersion (MinTLSVersion cfg),
      CipherSuites = [] @ Ciphers cfg,
      CipherSuiteNames = [] @ CipherNames cfg,
      CipherSuiteOpenSSLNames = [] @ CipherOpenSSLNames cfg,
      PreferServerCipherSuites = CipherOrder cfg\<rparr>"

fun localPassword :: "Node list \<Rightarrow> string \<Rightarrow> string" where
  "localPassword [] sp = sp"
| "localPassword (node # rest) sp = (if Local node then Password node else localPassword rest sp)"

definition cacheToCredsDB :: "Cache \<Rightarrow> credsDB" where
  "cacheToCredsDB c =
     (let d = \<lparr>nodes = Nodes c,
                authCheckURL = AuthCheckURL c,
                permissionCheckURL = PermissionCheckURL c,
                specialUser = SpecialUser c,
                specialPassword = [],
                permissionsVersion = PermissionsVersion c,
                authVersion = AuthVersion c,
                certVersion = CertVersion c,
                extractUserFromCertURL = ExtractUserFromCertURL c,
                clientCertAuthState = ClientCertAuthState c,
                clientCertAuthVersion = ClientCertAuthVersion c,
                tlsConfig = importTLSConfig (TLSConfigImport c)\<rparr>
      in d\<lparr>specialPassword := localPassword (nodes d) (specialPassword d)\<rparr>)"

subsection \<open>Update, reset, construction\<close>

definition updateDBLocked :: "'w Svc \<Rightarrow> credsDB option \<Rightarrow> 'w Svc" where
  "updateDBLocked s d =
     (let s1 = s\<lparr>db := d\<rparr> in if freshChan s1 then s1\<lparr>freshChan := False\<rparr> else s1)"

definition needRefreshTLS :: "'w Svc \<Rightarrow> credsDB \<Rightarrow> bool" where
  "needRefreshTLS s d =
     (case db s of
        None \<Rightarrow> True
      | Some old \<Rightarrow> certVersion old \<noteq> certVersion d \<or>
                    clientCertAuthState old \<noteq> clientCertAuthState d \<or>
                    \<not> (tlsConfig old = tlsConfig d))"

text \<open>
  \<open>UpdateDB\<close> also sets its out-parameter to true when it is given one, and always
  returns the nil error; the result here is the service after the call.
\<close>

definition UpdateDB :: "'w Svc \<Rightarrow> Cache \<Rightarrow> 'w Svc" where
  "UpdateDB s c =
     (let d = cacheToCredsDB c;
          tlsUpdated = needRefreshTLS s d;
          s1 = updateDBLocked s (Some d)
      in if tlsUpdated then s1\<lparr>tlsNotifier := notifyTLSChange (tlsNotifier s1)\<rparr> else s1)"

definition ResetSvc :: "'w Svc \<Rightarrow> error option \<Rightarrow> unit outcome \<times> 'w Svc" where
  "ResetSvc s e =
     (if e = None then (Panics (PanicString ''staleErr must be non-nil''), s)
      else (Returns (), updateDBLocked (s\<lparr>staleErr := e\<rparr>) None))"

definition staleError :: "'w Svc \<Rightarrow> error outcome" where
  "staleError s =
     (case staleErr s of
        None \<Rightarrow> Panics (PanicString ''impossible Svc state where staleErr is nil!'')
      | Some e \<Rightarrow> Returns e)"

text \<open>
  \<open>SetTransport\<close> gives the service a new client around the round tripper.
  \<open>NewSVCForTest\<close>: the period is a \<open>time.Duration\<close>; \<open>tr\<close> is the transport the code
  builds from \<open>http.DefaultTransport\<close>, and the client is the one \<open>SetTransport\<close> makes
  around it (before that call the structure has no client; the record is given the same
  one). The body handed to the wait function is \<open>graceTimeout\<close>, which runs when the
  period has passed.
\<close>

definition SetTransport :: "'ip golib \<Rightarrow> 'w Svc \<Rightarrow> RoundTripper \<Rightarrow> 'w Svc" where
  "SetTransport L s rt = s\<lparr>httpClient := httpClientOf L rt\<rparr>"

definition NewSVCForTest ::
  "'ip golib \<Rightarrow> int \<Rightarrow> error option \<Rightarrow> RoundTripper \<Rightarrow> 'w Svc outcome" where
  "NewSVCForTest L period e tr =
     (if e = None then Panics (PanicString ''staleErr must be non-nil'')
      else
        let s = \<lparr>db = None, staleErr = e, freshChan = False, upCache = None, authCache = None,
                 clientCertCache = None, httpClient = httpClientOf L tr, outbound = [],
                 semaphore = \<lparr>slots = 10, held = 0\<rparr>, tlsNotifier = newTLSNotifier\<rparr>;
            s1 = SetTransport L s tr
        in Returns (if period \<noteq> 0 then s1\<lparr>freshChan := True\<rparr> else s1))"

definition graceTimeout :: "'w Svc \<Rightarrow> 'w Svc" where
  "graceTimeout s = (if freshChan s then s\<lparr>freshChan := False\<rparr> else s)"

text \<open>
  \<open>fetchDB\<close> returns at once when there is a snapshot or no channel to wait on;
  otherwise the caller waits for the channel to be closed.
\<close>

definition fetchDB :: "'w Svc \<Rightarrow> credsDB option outcome" where
  "fetchDB s = (if db s \<noteq> None \<or> \<not> freshChan s then Returns (db s) else Blocks)"

text \<open>The return of \<open>staleError\<close> beside the zero value \<open>z\<close> of the call's result.\<close>

definition returnStale :: "'w Svc \<Rightarrow> 'a \<Rightarrow> ('a \<times> error option) outcome" where
  "returnStale s z =
     (case staleError s of
        Panics p \<Rightarrow> Panics p
      | Blocks \<Rightarrow> Blocks
      | Returns e \<Rightarrow> Returns (z, Some e))"

subsection \<open>Calls to the authority\<close>

definition executeReqAndGetCreds ::
  "'w Svc \<Rightarrow> credsDB \<Rightarrow> Request \<Rightarrow> (CredsImpl option \<times> error option) \<times> 'w Svc" where
  "executeReqAndGetCreds s d req =
     (case httpClient_Do s req of
        (Inl err, s1) \<Rightarrow> ((None, Some err), s1)
      | (Inr hresp, s1) \<Rightarrow>
          if StatusCode hresp = 401 then ((None, Some ErrNoAuth), s1)
          else if StatusCode hresp \<noteq> 200 then ((None, Some (ErrAuthStatus (Status hresp))), s1)
          else (case RespBody hresp of
                  Inl err \<Rightarrow> ((None, Some err), s1)
                | Inr (u, dm) \<Rightarrow>
                    ((Some \<lparr>name = u, domain = dm, password = [], db = d\<rparr>, None), s1)))"

text \<open>
  \<open>VerifyOnServer\<close> reads the URL it tests through the service's own snapshot field, which
  for one caller at a time is the snapshot \<open>fetchDB\<close> has just returned. The deferred
  \<open>signal\<close> runs on every way out of the throttled part, the panic included.
\<close>

definition VerifyOnServer ::
  "'ip golib \<Rightarrow> 'w Svc \<Rightarrow> Header \<Rightarrow> (CredsImpl option \<times> error option) outcome \<times> 'w Svc" where
  "VerifyOnServer L s reqHeaders =
     (case fetchDB s of
        Panics p \<Rightarrow> (Panics p, s)
      | Blocks \<Rightarrow> (Blocks, s)
      | Returns None \<Rightarrow> (returnStale s None, s)
      | Returns (Some d) \<Rightarrow>
          if authCheckURL d = [] then (Returns (None, Some ErrNoAuth), s)
          else
            (case semaphore_wait (semaphore s) of
               None \<Rightarrow> (Blocks, s)
             | Some m \<Rightarrow>
                 let s1 = s\<lparr>semaphore := m\<rparr>
                 in (case NewRequest L ''POST'' (authCheckURL d) [] of
                       Inl err \<Rightarrow>
                         (Panics (PanicError err),
                          s1\<lparr>semaphore := semaphore_signal (semaphore s1)\<rparr>)
                     | Inr req \<Rightarrow>
                         let h1 = copyHeader tokenHeader reqHeaders (Header req);
                             h2 = copyHeader ''ns-server-auth-token'' reqHeaders h1;
                             h3 = copyHeader ''Cookie'' reqHeaders h2;
                             h4 = copyHeader ''Authorization'' reqHeaders h3;
                             (r, s2) = executeReqAndGetCreds s1 d (req\<lparr>Header := h4\<rparr>);
                             s3 = s2\<lparr>semaphore := semaphore_signal (semaphore s2)\<rparr>
                         in (case r of
                               (rv, Some err) \<Rightarrow> (Returns (None, Some err), s3)
                             | (rv, None) \<Rightarrow> (Returns (rv, None), s3)))))"

definition verifyPasswordOnServer ::
  "'ip golib \<Rightarrow> 'w Svc \<Rightarrow> string \<Rightarrow> string \<Rightarrow> (CredsImpl option \<times> error option) outcome \<times> 'w Svc" where
  "verifyPasswordOnServer L s user pwd =
     (case NewRequest L ''GET'' ''http://host/'' [] of
        Inl err \<Rightarrow> (Panics (MustNotHappen err), s)
      | Inr req \<Rightarrow> VerifyOnServer L s (Header (SetBasicAuth L user pwd req)))"

definition checkPermissionOnServer ::
  "'ip golib \<Rightarrow> 'w Svc \<Rightarrow> credsDB \<Rightarrow> string \<Rightarrow> string \<Rightarrow> string \<Rightarrow>
     (bool \<times> error option) outcome \<times> 'w Svc" where
  "checkPermissionOnServer L s d user dm permission =
     (case semaphore_wait (semaphore s) of
        None \<Rightarrow> (Blocks, s)
      | Some m \<Rightarrow>
          let s1 = s\<lparr>semaphore := m\<rparr>
          in (case NewRequest L ''GET'' (permissionCheckURL d) [] of
                Inl err \<Rightarrow>
                  (Returns (False, Some err), s1\<lparr>semaphore := semaphore_signal (semaphore s1)\<rparr>)
              | Inr req \<Rightarrow>
                  let req1 = SetBasicAuth L (specialUser d) (specialPassword d) req;
                      req2 = req1\<lparr>RawQuery :=
                               Some [(''domain'', dm), (''permission'', permission), (''user'', user)]\<rparr>;
                      (r, s2) = httpClient_Do s1 req2;
                      s3 = s2\<lparr>semaphore := semaphore_signal (semaphore s2)\<rparr>
                  in (case r of
                        Inl err \<Rightarrow> (Returns (False, Some err), s3)
                      | Inr hresp \<Rightarrow>
                          if StatusCode hresp = 200 then (Returns (True, None), s3)
                          else if StatusCode hresp = 401 then (Returns (False, None), s3)
                          else (Returns (False, Some (ErrReturnCode (StatusCode hresp))), s3))))"

definition getUserIdentityFromCert ::
  "'ip golib \<Rightarrow> Certificate \<Rightarrow> credsDB \<Rightarrow> 'w Svc \<Rightarrow>
     (CredsImpl option \<times> error option) outcome \<times> 'w Svc" where
  "getUserIdentityFromCert L cert d s =
     (if authCheckURL d = [] then (Returns (None, Some ErrNoAuth), s)
      else
        (case semaphore_wait (semaphore s) of
           None \<Rightarrow> (Blocks, s)
         | Some m \<Rightarrow>
             let s1 = s\<lparr>semaphore := m\<rparr>
             in (case NewRequest L ''POST'' (extractUserFromCertURL d) (Raw cert) of
                   Inl err \<Rightarrow>
                     (Returns (None, Some err),
                      s1\<lparr>semaphore := semaphore_signal (semaphore s1)\<rparr>)
                 | Inr req \<Rightarrow>
                     let req1 = req\<lparr>Header :=
                                  Header_Set (Header req) ''Content-Type'' ''application/octet-stream''\<rparr>;
                         req2 = SetBasicAuth L (specialUser d) (specialPassword d) req1;
                         (r, s2) = executeReqAndGetCreds s1 d req2;
                         s3 = s2\<lparr>semaphore := semaphore_signal (semaphore s2)\<rparr>
                     in (case r of
                           (rv, Some err) \<Rightarrow> (Returns (None, Some err), s3)
                         | (rv, None) \<Rightarrow> (Returns (rv, None), s3)))))"

subsection \<open>The operations\<close>

definition upCacheOnce :: "'w Svc \<Rightarrow> (userPermission, bool) LRUCache" where
  "upCacheOnce s = (case upCache s of None \<Rightarrow> NewLRUCache 1024 | Some c \<Rightarrow> c)"

definition authCacheOnce :: "'w Svc \<Rightarrow> (userPassword, userIdentity) LRUCache" where
  "authCacheOnce s = (case authCache s of None \<Rightarrow> NewLRUCache 256 | Some c \<Rightarrow> c)"

definition clientCertCacheOnce :: "'w Svc \<Rightarrow> (clienCertHash, userIdentity) LRUCache" where
  "clientCertCacheOnce s = (case clientCertCache s of None \<Rightarrow> NewLRUCache 256 | Some c \<Rightarrow> c)"

definition checkPermission ::
  "'ip golib \<Rightarrow> 'w Svc \<Rightarrow> string \<Rightarrow> string \<Rightarrow> string \<Rightarrow> (bool \<times> error option) outcome \<times> 'w Svc" where
  "checkPermission L s user dm permission =
     (case fetchDB s of
        Panics p \<Rightarrow> (Panics p, s)
      | Blocks \<Rightarrow> (Blocks, s)
      | Returns None \<Rightarrow> (returnStale s False, s)
      | Returns (Some d) \<Rightarrow>
          let key = userPermission (permissionsVersion d) user dm permission;
              (found, c1) = LRUCache_Get (upCacheOnce s) key;
              s1 = s\<lparr>upCache := Some c1\<rparr>
          in (case found of
                Some allowed \<Rightarrow> (Returns (allowed, None), s1)
              | None \<Rightarrow>
                  (case checkPermissionOnServer L s1 d user dm permission of
                     (Returns (allowedOnServer, Some err), s2) \<Rightarrow> (Returns (False, Some err), s2)
                   | (Returns (allowedOnServer, None), s2) \<Rightarrow>
                       (Returns (allowedOnServer, None),
                        s2\<lparr>upCache := Some (LRUCache_Set (upCacheOnce s2) key allowedOnServer)\<rparr>)
                   | (Panics p, s2) \<Rightarrow> (Panics p, s2)
                   | (Blocks, s2) \<Rightarrow> (Blocks, s2))))"

definition IsAllowed ::
  "'ip golib \<Rightarrow> 'w Svc \<Rightarrow> CredsImpl \<Rightarrow> string \<Rightarrow> (bool \<times> error option) outcome \<times> 'w Svc" where
  "IsAllowed L s c permission = checkPermission L s (name c) (domain c) permission"

definition VerifyPassword ::
  "'ip golib \<Rightarrow> 'w Svc \<Rightarrow> string \<Rightarrow> string \<Rightarrow> (CredsImpl option \<times> error option) outcome \<times> 'w Svc" where
  "VerifyPassword L s user pwd =
     (case fetchDB s of
        Panics p \<Rightarrow> (Panics p, s)
      | Blocks \<Rightarrow> (Blocks, s)
      | Returns None \<Rightarrow> (returnStale s None, s)
      | Returns (Some d) \<Rightarrow>
          if verifySpecialCreds d user pwd
          then (Returns (Some \<lparr>name = user, domain = ''admin'', password = pwd, db = d\<rparr>, None), s)
          else
            let key = userPassword (authVersion d) user pwd;
                (found, c1) = LRUCache_Get (authCacheOnce s) key;
                s1 = s\<lparr>authCache := Some c1\<rparr>
            in (case found of
                  Some (userIdentity iu idm) \<Rightarrow>
                    (Returns (Some \<lparr>name = iu, domain = idm, password = pwd, db = d\<rparr>, None), s1)
                | None \<Rightarrow>
                    (case verifyPasswordOnServer L s1 user pwd of
                       (Returns (rv, Some err), s2) \<Rightarrow> (Returns (None, Some err), s2)
                     | (Returns (None, None), s2) \<Rightarrow> (Panics NilDereference, s2)
                     | (Returns (Some rv, None), s2) \<Rightarrow>
                         (Returns (Some rv, None),
                          if domain rv = ''admin'' \<or> domain rv = ''local''
                          then s2\<lparr>authCache :=
                                    Some (LRUCache_Set (authCacheOnce s2) key
                                            (userIdentity (name rv) (domain rv)))\<rparr>
                          else s2)
                     | (Panics p, s2) \<Rightarrow> (Panics p, s2)
                     | (Blocks, s2) \<Rightarrow> (Blocks, s2))))"

text \<open>
  The loop of \<open>GetCreds\<close> assigns the named results \<open>memcachedUser\<close> and \<open>pwd\<close> at every
  node; the pair carried along is their value so far, and \<open>user\<close> is set only on the
  way out of the loop.
\<close>

fun GetCreds_loop ::
  "'ip golib \<Rightarrow> credsDB \<Rightarrow> Node list \<Rightarrow> string \<Rightarrow> int \<Rightarrow> string \<times> string \<Rightarrow>
     string \<times> string \<times> string" where
  "GetCreds_loop L d [] host port (memcachedUser, pwd) = (memcachedUser, [], pwd)"
| "GetCreds_loop L d (n # ns) host port (memcachedUser, pwd) =
     (case getMemcachedCreds L n host port of
        (memcachedUser', pwd') \<Rightarrow>
          if memcachedUser' \<noteq> [] then (memcachedUser', specialUser d, pwd')
          else GetCreds_loop L d ns host port (memcachedUser', pwd'))"

definition GetCreds ::
  "'ip golib \<Rightarrow> 'w Svc \<Rightarrow> string \<Rightarrow> int \<Rightarrow> (string \<times> string \<times> string \<times> error option) outcome" where
  "GetCreds L s host port =
     (case fetchDB s of
        Panics p \<Rightarrow> Panics p
      | Blocks \<Rightarrow> Blocks
      | Returns None \<Rightarrow>
          (case staleError s of
             Panics p \<Rightarrow> Panics p
           | Blocks \<Rightarrow> Blocks
           | Returns e \<Rightarrow> Returns ([], [], [], Some e))
      | Returns (Some d) \<Rightarrow>
          (case GetCreds_loop L d (nodes d) host port ([], []) of
             (memcachedUser, user, pwd) \<Rightarrow> Returns (memcachedUser, user, pwd, None)))"

definition RegisterTLSRefreshCallback ::
  "'w Svc \<Rightarrow> 'w TLSRefreshCallback option \<Rightarrow> error option \<times> 'w Svc" where
  "RegisterTLSRefreshCallback s cb =
     (case registerCallback (tlsNotifier s) cb of (err, n) \<Rightarrow> (err, s\<lparr>tlsNotifier := n\<rparr>))"

datatype ClientAuthType =
    NoClientCert
  | RequestClientCert
  | RequireAnyClientCert
  | VerifyClientCertIfGiven
  | RequireAndVerifyClientCert

definition getAuthType :: "string \<Rightarrow> ClientAuthType" where
  "getAuthType state =
     (if state = ''enable'' then VerifyClientCertIfGiven
      else if state = ''mandatory'' then RequireAndVerifyClientCert
      else NoClientCert)"

definition GetClientCertAuthType :: "'w Svc \<Rightarrow> (ClientAuthType \<times> error option) outcome" where
  "GetClientCertAuthType s =
     (case fetchDB s of
        Panics p \<Rightarrow> Panics p
      | Blocks \<Rightarrow> Blocks
      | Returns None \<Rightarrow> returnStale s NoClientCert
      | Returns (Some d) \<Rightarrow> Returns (getAuthType (clientCertAuthState d), None))"

definition zeroTLSConfig :: TLSConfig where
  "zeroTLSConfig = \<lparr>MinVersion = 0, CipherSuites = [], CipherSuiteNames = [],
                    CipherSuiteOpenSSLNames = [], PreferServerCipherSuites = False\<rparr>"

definition GetTLSConfig :: "'w Svc \<Rightarrow> (TLSConfig \<times> error option) outcome" where
  "GetTLSConfig s =
     (case fetchDB s of
        Panics p \<Rightarrow> Panics p
      | Blocks \<Rightarrow> Blocks
      | Returns None \<Rightarrow> returnStale s zeroTLSConfig
      | Returns (Some d) \<Rightarrow> Returns (tlsConfig d, None))"

text \<open>
  In \<open>MaybeGetCredsFromCert\<close> the error of \<open>getUserIdentityFromCert\<close> is dropped: only
  whether it returned credentials is looked at.
\<close>

definition MaybeGetCredsFromCert ::
  "'ip golib \<Rightarrow> 'w Svc \<Rightarrow> Request \<Rightarrow> (CredsImpl option \<times> error option) outcome \<times> 'w Svc" where
  "MaybeGetCredsFromCert L s req =
     (case fetchDB s of
        Panics p \<Rightarrow> (Panics p, s)
      | Blocks \<Rightarrow> (Blocks, s)
      | Returns None \<Rightarrow> (returnStale s None, s)
      | Returns (Some d) \<Rightarrow>
          (case TLS req of
             None \<Rightarrow> (Returns (None, None), s)
           | Some cs \<Rightarrow>
               let s1 = s\<lparr>clientCertCache := Some (clientCertCacheOnce s)\<rparr>;
                   state = clientCertAuthState d
               in if state = ''disable'' \<or> state = [] then (Returns (None, None), s1)
                  else if state = ''enable'' \<and> length (PeerCertificates cs) = 0
                  then (Returns (None, None), s1)
                  else
                    (case PeerCertificates cs of
                       [] \<Rightarrow> (Panics (IndexOutOfRange 0 0), s1)
                     | cert # others \<Rightarrow>
                         let key = clienCertHash (md5sum L (Raw cert)) (clientCertAuthVersion d);
                             (found, c1) = LRUCache_Get (clientCertCacheOnce s1) key;
                             s2 = s1\<lparr>clientCertCache := Some c1\<rparr>
                         in (case found of
                               Some (userIdentity iu idm) \<Rightarrow>
                                 (Returns (Some \<lparr>name = iu, domain = idm, password = [], db = d\<rparr>,
                                           None), s2)
                             | None \<Rightarrow>
                                 (case getUserIdentityFromCert L cert d s2 of
                                    (Returns (Some creds, err), s3) \<Rightarrow>
                                      (Returns (Some creds, None),
                                       s3\<lparr>clientCertCache :=
                                            Some (LRUCache_Set (clientCertCacheOnce s3) key
                                                    (userIdentity (name creds) (domain creds)))\<rparr>)
                                  | (Returns (None, err), s3) \<Rightarrow>
                                      (Returns (None, Some ErrUserNotFound), s3)
                                  | (Panics p, s3) \<Rightarrow> (Panics p, s3)
                                  | (Blocks, s3) \<Rightarrow> (Blocks, s3))))))"

section \<open>The spec's wording, for comparison\<close>

text \<open>
  The spec's list of TLS-relevant differences between the previous snapshot \<open>old\<close> and
  the new one \<open>d\<close>, written after its words: the certificate version, the
  client-cert-auth mode, or any field of the TLS policy. It is compared below with
  \<open>needRefreshTLS\<close>, which is the code.
\<close>

definition tlsFieldsDiffer :: "credsDB \<Rightarrow> credsDB \<Rightarrow> bool" where
  "tlsFieldsDiffer old d =
     (certVersion old \<noteq> certVersion d \<or>
      clientCertAuthState old \<noteq> clientCertAuthState d \<or>
      MinVersion (tlsConfig old) \<noteq> MinVersion (tlsConfig d) \<or>
      CipherSuites (tlsConfig old) \<noteq> CipherSuites (tlsConfig d) \<or>
      CipherSuiteNames (tlsConfig old) \<noteq> CipherSuiteNames (tlsConfig d) \<or>
      CipherSuiteOpenSSLNames (tlsConfig old) \<noteq> CipherSuiteOpenSSLNames (tlsConfig d) \<or>
      PreferServerCipherSuites (tlsConfig old) \<noteq> PreferServerCipherSuites (tlsConfig d))"

text \<open>
  The spec's four ways in which a node matches a queried host, written after its words:
  the node's host is loopback; the queried host is loopback and the node is flagged
  local; both parse as IP addresses and are equal; neither parses as an IP address and
  the two texts are equal. It is compared below with \<open>matchHost\<close>, which is the code.
\<close>

definition specMatch :: "'ip golib \<Rightarrow> Node \<Rightarrow> string \<Rightarrow> bool" where
  "specMatch L n host =
     (ipIsLoopback L (ParseIP L (Host n)) \<or>
      (ipIsLoopback L (ParseIP L host) \<and> Local n) \<or>
      (case (ParseIP L (Host n), ParseIP L host) of
         (Some a, Some b) \<Rightarrow> Equal L b a
       | _ \<Rightarrow> False) \<or>
      (ParseIP L (Host n) = None \<and> ParseIP L host = None \<and> host = Host n))"

section \<open>The requests the code builds\<close>

text \<open>
  The request \<open>checkPermissionOnServer\<close> sends for a subject and a permission, and the
  request \<open>VerifyOnServer\<close> sends when \<open>verifyPasswordOnServer\<close> hands it the headers of
  basic authentication: the values those functions build, named so that the statements
  below can speak of them.
\<close>

definition permissionCheckRequest ::
  "'ip golib \<Rightarrow> credsDB \<Rightarrow> string \<Rightarrow> string \<Rightarrow> string \<Rightarrow> Request" where
  "permissionCheckRequest L d user dm permission =
     \<lparr>Method = ''GET'', URL = permissionCheckURL d,
      RawQuery = Some [(''domain'', dm), (''permission'', permission), (''user'', user)],
      Header = [''Authorization'' \<mapsto>
                  ''Basic '' @ base64 L (specialUser d @ '':'' @ specialPassword d)],
      Body = [], TLS = None\<rparr>"

definition authCheckRequest :: "'ip golib \<Rightarrow> credsDB \<Rightarrow> string \<Rightarrow> string \<Rightarrow> Request" where
  "authCheckRequest L d user pwd =
     \<lparr>Method = ''POST'', URL = authCheckURL d, RawQuery = None,
      Header = [''Authorization'' \<mapsto> ''Basic '' @ base64 L (user @ '':'' @ pwd)],
      Body = [], TLS = None\<rparr>"

section \<open>Fixtures\<close>

text \<open>
  The values the scenarios are evaluated on, after the package's test file: \<open>mkNode\<close>,
  the node list of \<open>TestServicePwd\<close> (and the same list with \<open>chi.local\<close> flagged local),
  the URLs of \<open>newCache\<close>, and a round tripper that answers the permission check like
  the test's \<open>permissionsRoundTrip\<close> and the identity check by the basic authentication
  it is sent (one administrator, one bucket user, 401 for the rest). \<open>sampleLib\<close> is an
  instance of the library parameters that knows two IP literals and no other, parses
  every URL, and leaves digests and encodings as the text itself; its client hands a
  request to the round tripper once, returns a response as it is and wraps an error.
  \<open>strictLib\<close> is the same instance except that the URL ":" does not parse.
\<close>

definition sampleLib :: "nat list golib" where
  "sampleLib =
     \<lparr>ParseIP = (\<lambda>h. if h = ''127.0.0.1'' then Some [127, 0, 0, 1]
                         else if h = ''10.0.0.1'' then Some [10, 0, 0, 1] else None),
      IsLoopback = (\<lambda>a. a = [127, 0, 0, 1]),
      Equal = (\<lambda>a b. a = b),
      urlParse = (\<lambda>u. None),
      md5sum = (\<lambda>x. x),
      base64 = (\<lambda>x. x),
      httpClientOf = (\<lambda>rt made req.
         case rt made req of
           Inl err \<Rightarrow> Inl (URLError (take 1 (Method req) @ toLower (drop 1 (Method req)))
                                    (URL req) err)
         | Inr hresp \<Rightarrow> Inr hresp)\<rparr>"

definition zeroTLSConfigImport :: tlsConfigImport where
  "zeroTLSConfigImport =
     \<lparr>MinTLSVersion = [], Ciphers = [], CipherNames = [], CipherOpenSSLNames = [],
      CipherOrder = False\<rparr>"

definition zeroCache :: Cache where
  "zeroCache =
     \<lparr>Nodes = [], AuthCheckURL = [], PermissionCheckURL = [], SpecialUser = [],
      PermissionsVersion = [], AuthVersion = [], CertVersion = 0, ExtractUserFromCertURL = [],
      ClientCertAuthState = [], ClientCertAuthVersion = [], TLSConfigImport = zeroTLSConfigImport\<rparr>"

definition mkNode :: "string \<Rightarrow> string \<Rightarrow> string \<Rightarrow> int list \<Rightarrow> bool \<Rightarrow> Node" where
  "mkNode host user pwd ports local =
     \<lparr>Host = host, User = user, Password = pwd, Ports = ports, Local = local\<rparr>"

definition servicePwdCache :: Cache where
  "servicePwdCache =
     zeroCache\<lparr>Nodes := [mkNode ''beta.local'' ''_admin'' ''foobar'' [9000, 12000] False,
                         mkNode ''chi.local'' ''_admin'' ''barfoo'' [9001, 12001] False,
                         mkNode ''fc00:0::10'' ''_admin'' ''barfoo'' [9000, 12000] False],
               SpecialUser := ''@component''\<rparr>"

definition localNodeCache :: Cache where
  "localNodeCache =
     zeroCache\<lparr>Nodes := [mkNode ''beta.local'' ''_admin'' ''foobar'' [9000, 12000] False,
                         mkNode ''chi.local'' ''_admin'' ''barfoo'' [9001, 12001] True],
               SpecialUser := ''@component''\<rparr>"

definition newCache :: Cache where
  "newCache =
     zeroCache\<lparr>AuthCheckURL := ''http://127.0.0.1:9000/_auth'',
               PermissionCheckURL := ''http://127.0.0.1:9000/_permissions''\<rparr>"

definition respond :: "int \<Rightarrow> error + (string \<times> string) \<Rightarrow> Response" where
  "respond statusCode body =
     \<lparr>StatusCode = statusCode,
      Status = (if statusCode = 401 then ''401 Unauthorized''
                else if statusCode = 200 then ''200 OK'' else ''None''),
      RespBody = body\<rparr>"

definition permissionsRoundTrip :: "Request \<Rightarrow> error + Response" where
  "permissionsRoundTrip req =
     (case RawQuery req of
        Some [(''domain'', dm), (''permission'', permission), (''user'', user)] \<Rightarrow>
          Inr (respond (if dm = ''admin'' then 200
                        else if dm = ''bucket'' \<and>
                                permission = ''cluster.bucket['' @ user @ ''].data!write'' then 200
                        else if dm = ''anonymous'' \<and>
                                permission = ''cluster.bucket[default].data!write'' then 200
                        else 401) (Inl (OtherError ''unexpected end of JSON input'')))
      | _ \<Rightarrow> Inl (OtherError ''Missing parameters in request''))"

definition authRoundTrip :: "Request \<Rightarrow> error + Response" where
  "authRoundTrip req =
     (if Header req ''Authorization'' = Some ''Basic Administrator:asdasd''
      then Inr (respond 200 (Inr (''Administrator'', ''admin'')))
      else if Header req ''Authorization'' = Some ''Basic beer-sample:pwd''
      then Inr (respond 200 (Inr (''beer-sample'', ''bucket'')))
      else Inr (respond 401 (Inl (OtherError ''unexpected end of JSON input''))))"

definition testingRT :: "Request list \<Rightarrow> Request \<Rightarrow> error + Response" where
  "testingRT made req =
     (if Method req = ''GET'' then permissionsRoundTrip req else authRoundTrip req)"

definition staleReason :: error where
  "staleReason = OtherError ''CBAuth database is stale''"

definition newAuth :: "unit Svc" where
  "newAuth =
     \<lparr>db = None, staleErr = Some staleReason, freshChan = False, upCache = None,
      authCache = None, clientCertCache = None,
      httpClient = httpClientOf sampleLib testingRT, outbound = [],
      semaphore = \<lparr>slots = 10, held = 0\<rparr>, tlsNotifier = newTLSNotifier\<rparr>"

definition errDisconnected :: error where
  "errDisconnected = OtherError ''revrpc connection to ns_server was closed''"

definition certAuthCache :: Cache where
  "certAuthCache = zeroCache\<lparr>ClientCertAuthState := ''enable''\<rparr>"

definition mandatoryCertCache :: Cache where
  "mandatoryCertCache = newCache\<lparr>ClientCertAuthState := ''mandatory''\<rparr>"

definition tlsRequest :: "Certificate list \<Rightarrow> Request" where
  "tlsRequest certs =
     \<lparr>Method = ''GET'', URL = ''https://q:11234/_queryStatsmaybe'', RawQuery = None,
      Header = Map.empty, Body = [], TLS = Some \<lparr>PeerCertificates = certs\<rparr>\<rparr>"

definition emptyUserCache :: Cache where
  "emptyUserCache =
     zeroCache\<lparr>Nodes := [mkNode ''beta.local'' [] ''foobar'' [9000, 12000] False,
                         mkNode ''chi.local'' ''_admin'' ''barfoo'' [9001, 12001] False],
               SpecialUser := ''@component''\<rparr>"

definition emptyUserLastCache :: Cache where
  "emptyUserLastCache =
     zeroCache\<lparr>Nodes := [mkNode ''chi.local'' ''_admin'' ''barfoo'' [9001, 12001] False,
                         mkNode ''beta.local'' [] ''foobar'' [9000, 12000] False],
               SpecialUser := ''@component''\<rparr>"

definition betaCache :: Cache where
  "betaCache =
     zeroCache\<lparr>Nodes := [mkNode ''beta.local'' ''_admin'' ''foobar'' [9000, 12000] False]\<rparr>"

text \<open>
  A configuration whose auth-check URL is ":" and a library whose \<open>url.Parse\<close> rejects
  it, as Go's does ("missing protocol scheme"), and accepts every other URL.
\<close>

definition badURLCache :: Cache where
  "badURLCache = newCache\<lparr>AuthCheckURL := '':''\<rparr>"

definition strictLib :: "nat list golib" where
  "strictLib =
     sampleLib\<lparr>urlParse :=
       (\<lambda>u. if u = '':'' then Some (OtherError ''missing protocol scheme'') else None)\<rparr>"

definition permCacheV1 :: Cache where
  "permCacheV1 = newCache\<lparr>SpecialUser := ''@component'', PermissionsVersion := ''V1''\<rparr>"

definition permCacheV2 :: Cache where
  "permCacheV2 = newCache\<lparr>SpecialUser := ''@component'', PermissionsVersion := ''V2''\<rparr>"

section \<open>Basic facts\<close>

lemma NewSVCForTest_newAuth:
  "NewSVCForTest sampleLib 0 (Some staleReason) testingRT = Returns newAuth"
  by (simp add: NewSVCForTest_def newAuth_def SetTransport_def)

lemma sampleLib_client_response:
  "rt made req = Inr hresp \<Longrightarrow> httpClientOf sampleLib rt made req = Inr hresp"
  by (simp add: sampleLib_def)

lemma fetchDB_Some: "db s = Some d \<Longrightarrow> fetchDB s = Returns (Some d)"
  by (simp add: fetchDB_def)

lemma db_UpdateDB: "db (UpdateDB s c) = Some (cacheToCredsDB c)"
  by (simp add: UpdateDB_def updateDBLocked_def Let_def)

section \<open>Password verification: the special credentials\<close>

text \<open>
  C1. With a snapshot current, a non-empty user name that begins with \<open>@\<close> and a
  password equal to the snapshot's special password, \<open>VerifyPassword\<close> returns the
  identity with that name and domain "admin" and leaves the service as it was: no
  request is made and the auth cache is not touched.
\<close>

theorem C1_special_creds:
  assumes "db s = Some d" and "user \<noteq> []" and "hd user = CHR ''@''"
    and "pwd = specialPassword d"
  shows "VerifyPassword L s user pwd =
           (Returns (Some \<lparr>name = user, domain = ''admin'', password = pwd, db = d\<rparr>, None), s)
         \<and> outbound (snd (VerifyPassword L s user pwd)) = outbound s
         \<and> authCache (snd (VerifyPassword L s user pwd)) = authCache s"
  using assms by (simp add: VerifyPassword_def fetchDB_Some verifySpecialCreds_def)

theorem C1_special_creds_witness:
  "db (UpdateDB newAuth localNodeCache) = Some (cacheToCredsDB localNodeCache)
   \<and> ''@component'' \<noteq> [] \<and> hd ''@component'' = CHR ''@''
   \<and> ''barfoo'' = specialPassword (cacheToCredsDB localNodeCache)
   \<and> VerifyPassword sampleLib (UpdateDB newAuth localNodeCache) ''@component'' ''barfoo'' =
        (Returns (Some \<lparr>name = ''@component'', domain = ''admin'', password = ''barfoo'',
                         db = cacheToCredsDB localNodeCache\<rparr>, None),
         UpdateDB newAuth localNodeCache)
   \<and> outbound (snd (VerifyPassword sampleLib (UpdateDB newAuth localNodeCache)
                         ''@component'' ''barfoo'')) = []"
proof -
  have h1: "db (UpdateDB newAuth localNodeCache) = Some (cacheToCredsDB localNodeCache)"
    by (rule db_UpdateDB)
  have h4: "''barfoo'' = specialPassword (cacheToCredsDB localNodeCache)"
    by (simp add: cacheToCredsDB_def localNodeCache_def zeroCache_def mkNode_def Let_def)
  have h5: "outbound (UpdateDB newAuth localNodeCache) = []"
    by (simp add: UpdateDB_def updateDBLocked_def Let_def newAuth_def)
  from C1_special_creds [OF h1 _ _ h4, of "''@component''" sampleLib] h1 h4 h5
  show ?thesis by simp
qed

lemma localPassword_no_local: "\<forall>n \<in> set ns. \<not> Local n \<Longrightarrow> localPassword ns sp = sp"
  by (induction ns) auto

lemma specialPassword_cacheToCredsDB:
  "specialPassword (cacheToCredsDB c) = localPassword (Nodes c) []"
  by (simp add: cacheToCredsDB_def Let_def)

text \<open>
  C9. When no node of the pushed configuration is flagged local, the special password of
  the snapshot built from it is the empty string, and after the update \<open>VerifyPassword\<close>
  accepts every non-empty user name beginning with \<open>@\<close> with the empty password as an
  "admin" identity: \<open>verifySpecialCreds\<close> asks for nothing but the \<open>@\<close> and the equality
  of the two passwords.
\<close>

theorem C9_no_local_node:
  assumes "\<forall>n \<in> set (Nodes c). \<not> Local n" and "user \<noteq> []" and "hd user = CHR ''@''"
  shows "specialPassword (cacheToCredsDB c) = []
         \<and> verifySpecialCreds (cacheToCredsDB c) user []
         \<and> VerifyPassword L (UpdateDB s c) user [] =
             (Returns (Some \<lparr>name = user, domain = ''admin'', password = [],
                              db = cacheToCredsDB c\<rparr>, None), UpdateDB s c)"
proof -
  have sp: "specialPassword (cacheToCredsDB c) = []"
    using assms(1) by (simp add: specialPassword_cacheToCredsDB localPassword_no_local)
  have v: "verifySpecialCreds (cacheToCredsDB c) user []"
    using assms(2,3) sp by (simp add: verifySpecialCreds_def)
  have "fetchDB (UpdateDB s c) = Returns (Some (cacheToCredsDB c))"
    by (rule fetchDB_Some) (rule db_UpdateDB)
  with v have "VerifyPassword L (UpdateDB s c) user [] =
             (Returns (Some \<lparr>name = user, domain = ''admin'', password = [],
                              db = cacheToCredsDB c\<rparr>, None), UpdateDB s c)"
    by (simp add: VerifyPassword_def)
  with sp v show ?thesis by simp
qed

theorem C9_no_local_node_witness:
  "filter Local (Nodes servicePwdCache) = [] \<and> ''@x'' \<noteq> [] \<and> hd ''@x'' = CHR ''@''
   \<and> specialPassword (cacheToCredsDB servicePwdCache) = []
   \<and> VerifyPassword sampleLib (UpdateDB newAuth servicePwdCache) ''@x'' [] =
        (Returns (Some \<lparr>name = ''@x'', domain = ''admin'', password = [],
                         db = cacheToCredsDB servicePwdCache\<rparr>, None),
         UpdateDB newAuth servicePwdCache)"
proof -
  have h: "\<forall>n \<in> set (Nodes servicePwdCache). \<not> Local n"
    by (simp add: servicePwdCache_def zeroCache_def mkNode_def)
  from C9_no_local_node [OF h, of "''@x''" sampleLib newAuth] h show ?thesis by simp
qed

section \<open>Reset and the stale error\<close>

lemma ResetSvc_Some:
  "ResetSvc s (Some e) = (Returns (), s\<lparr>db := None, staleErr := Some e, freshChan := False\<rparr>)"
  by (cases "freshChan s") (simp_all add: ResetSvc_def updateDBLocked_def Let_def)

lemma fetchDB_stale: "db t = None \<Longrightarrow> \<not> freshChan t \<Longrightarrow> fetchDB t = Returns None"
  by (simp add: fetchDB_def)

lemma returnStale_Some: "staleErr t = Some e \<Longrightarrow> returnStale t z = Returns (z, Some e)"
  by (simp add: returnStale_def staleError_def)

text \<open>
  C6. \<open>ResetSvc\<close> with the nil error panics. With an error \<open>e\<close> it returns, and in the
  service \<open>t\<close> it leaves there is no snapshot and \<open>e\<close> is the stale error; on \<open>t\<close> password
  verification (through \<open>VerifyPassword\<close> or \<open>VerifyOnServer\<close>), the permission check, the
  certificate extraction, the service-credential lookup and the two TLS accessors all
  return \<open>e\<close> with the zero value of their result, none panics or blocks, and each leaves
  \<open>t\<close> as it is, so the same holds after any number of them, until an update.
\<close>

theorem C6_reset_stale:
  assumes "ResetSvc s (Some e) = (r, t)"
  shows "ResetSvc s None = (Panics (PanicString ''staleErr must be non-nil''), s)
     \<and> r = Returns ()
     \<and> db t = None \<and> staleErr t = Some e
     \<and> VerifyPassword L t user pwd = (Returns (None, Some e), t)
     \<and> VerifyOnServer L t hdrs = (Returns (None, Some e), t)
     \<and> checkPermission L t user dm permission = (Returns (False, Some e), t)
     \<and> MaybeGetCredsFromCert L t req = (Returns (None, Some e), t)
     \<and> GetCreds L t host port = Returns ([], [], [], Some e)
     \<and> GetClientCertAuthType t = Returns (NoClientCert, Some e)
     \<and> GetTLSConfig t = Returns (zeroTLSConfig, Some e)"
proof -
  have t: "t = s\<lparr>db := None, staleErr := Some e, freshChan := False\<rparr>"
    using assms by (simp add: ResetSvc_Some)
  have d: "db t = None" and f: "\<not> freshChan t" and e: "staleErr t = Some e"
    by (simp_all add: t)
  have fd: "fetchDB t = Returns None" using d f by (rule fetchDB_stale)
  have rs: "\<And>z. returnStale t z = Returns (z, Some e)" using e by (rule returnStale_Some)
  have se: "staleError t = Returns e" using e by (simp add: staleError_def)
  have 1: "ResetSvc s None = (Panics (PanicString ''staleErr must be non-nil''), s)"
    by (simp add: ResetSvc_def)
  have 2: "r = Returns ()" using assms by (simp add: ResetSvc_Some)
  have 3: "VerifyPassword L t user pwd = (Returns (None, Some e), t)"
    by (simp add: VerifyPassword_def fd rs)
  have 4: "VerifyOnServer L t hdrs = (Returns (None, Some e), t)"
    by (simp add: VerifyOnServer_def fd rs)
  have 5: "checkPermission L t user dm permission = (Returns (False, Some e), t)"
    by (simp add: checkPermission_def fd rs)
  have 6: "MaybeGetCredsFromCert L t req = (Returns (None, Some e), t)"
    by (simp add: MaybeGetCredsFromCert_def fd rs)
  have 7: "GetCreds L t host port = Returns ([], [], [], Some e)"
    by (simp add: GetCreds_def fd se)
  have 8: "GetClientCertAuthType t = Returns (NoClientCert, Some e)"
    by (simp add: GetClientCertAuthType_def fd rs)
  have 9: "GetTLSConfig t = Returns (zeroTLSConfig, Some e)"
    by (simp add: GetTLSConfig_def fd rs)
  from 1 2 d e 3 4 5 6 7 8 9 show ?thesis by simp
qed

theorem C6_reset_stale_witness:
  "ResetSvc (UpdateDB newAuth servicePwdCache) (Some errDisconnected) =
     (Returns (), newAuth\<lparr>staleErr := Some errDisconnected,
                          tlsNotifier := \<lparr>ch = True, callback = None\<rparr>\<rparr>)
   \<and> VerifyPassword sampleLib
        (newAuth\<lparr>staleErr := Some errDisconnected,
                 tlsNotifier := \<lparr>ch = True, callback = None\<rparr>\<rparr>) ''asd'' ''bsd'' =
       (Returns (None, Some errDisconnected),
        newAuth\<lparr>staleErr := Some errDisconnected,
                tlsNotifier := \<lparr>ch = True, callback = None\<rparr>\<rparr>)
   \<and> GetCreds sampleLib
        (newAuth\<lparr>staleErr := Some errDisconnected,
                 tlsNotifier := \<lparr>ch = True, callback = None\<rparr>\<rparr>) ''beta.local'' 9000 =
       Returns ([], [], [], Some errDisconnected)"
proof -
  have h: "ResetSvc (UpdateDB newAuth servicePwdCache) (Some errDisconnected) =
     (Returns (), newAuth\<lparr>staleErr := Some errDisconnected,
                          tlsNotifier := \<lparr>ch = True, callback = None\<rparr>\<rparr>)"
    by (simp add: ResetSvc_def UpdateDB_def updateDBLocked_def Let_def newAuth_def
          needRefreshTLS_def notifyTLSChange_def notifyTLSChangeLocked_def newTLSNotifier_def)
  from C6_reset_stale [OF h, of sampleLib "''asd''" "''bsd''" _ _ _ _ "''beta.local''" 9000] h
  show ?thesis by simp
qed

section \<open>TLS-change notification on update\<close>

lemma TLSConfig_neq_iff:
  "(a \<noteq> (b::TLSConfig)) =
     (MinVersion a \<noteq> MinVersion b \<or> CipherSuites a \<noteq> CipherSuites b \<or>
      CipherSuiteNames a \<noteq> CipherSuiteNames b \<or>
      CipherSuiteOpenSSLNames a \<noteq> CipherSuiteOpenSSLNames b \<or>
      PreferServerCipherSuites a \<noteq> PreferServerCipherSuites b)"
  by (cases a, cases b) auto

lemma needRefreshTLS_iff:
  "needRefreshTLS s d = (case db s of None \<Rightarrow> True | Some old \<Rightarrow> tlsFieldsDiffer old d)"
  by (simp add: needRefreshTLS_def tlsFieldsDiffer_def TLSConfig_neq_iff split: option.splits)

lemma tlsNotifier_UpdateDB:
  "tlsNotifier (UpdateDB s c) =
     (if needRefreshTLS s (cacheToCredsDB c) then notifyTLSChange (tlsNotifier s) else tlsNotifier s)"
  by (simp add: UpdateDB_def updateDBLocked_def Let_def needRefreshTLS_def)

lemma UpdateDB_eq:
  "UpdateDB s c =
     s\<lparr>db := Some (cacheToCredsDB c), freshChan := False,
       tlsNotifier := (if needRefreshTLS s (cacheToCredsDB c)
                       then notifyTLSChange (tlsNotifier s) else tlsNotifier s)\<rparr>"
  by (cases "freshChan s") (simp_all add: UpdateDB_def updateDBLocked_def Let_def needRefreshTLS_def)

lemma loop_round_Notification:
  "loop_round n retry Notification w = Some (n', retry', w') \<Longrightarrow> n' = n\<lparr>ch := False\<rparr>"
  by (auto simp add: loop_round_def loop_body_def split: if_splits prod.splits option.splits)

text \<open>
  C7. \<open>UpdateDB\<close> installs the snapshot built from what was pushed, clears the wait
  channel, and calls \<open>notifyTLSChange\<close> exactly when there was no previous snapshot or the
  new snapshot differs from it in the certificate version, the client-cert-auth mode or
  a field of the TLS policy; it changes nothing else. So a notification is pending
  afterwards iff one was pending before or such a difference exists. For a second
  update after the first, whatever the notifier has become in between: it notifies iff
  the TLS-relevant fields of the two snapshots differ; in particular, once \<open>loop\<close> has
  taken the first notification, a notification is pending after the second update iff
  they differ, and none is when they are identical.
\<close>

theorem C7_tls_notification:
  "UpdateDB s c =
     s\<lparr>db := Some (cacheToCredsDB c), freshChan := False,
       tlsNotifier :=
         (if (case db s of None \<Rightarrow> True | Some old \<Rightarrow> tlsFieldsDiffer old (cacheToCredsDB c))
          then notifyTLSChange (tlsNotifier s) else tlsNotifier s)\<rparr>
   \<and> db (UpdateDB s c) = Some (cacheToCredsDB c)
   \<and> tlsNotifier (UpdateDB s c) =
     (if (case db s of None \<Rightarrow> True | Some old \<Rightarrow> tlsFieldsDiffer old (cacheToCredsDB c))
      then notifyTLSChange (tlsNotifier s) else tlsNotifier s)
   \<and> ch (tlsNotifier (UpdateDB s c)) =
       (ch (tlsNotifier s) \<or>
        (case db s of None \<Rightarrow> True | Some old \<Rightarrow> tlsFieldsDiffer old (cacheToCredsDB c)))
   \<and> (\<not> tlsFieldsDiffer (cacheToCredsDB c) (cacheToCredsDB c') \<longrightarrow>
        tlsNotifier (UpdateDB (UpdateDB s c) c') = tlsNotifier (UpdateDB s c))
   \<and> tlsNotifier (UpdateDB ((UpdateDB s c)\<lparr>tlsNotifier := n\<rparr>) c') =
       (if tlsFieldsDiffer (cacheToCredsDB c) (cacheToCredsDB c') then notifyTLSChange n else n)
   \<and> (loop_round (tlsNotifier (UpdateDB s c)) retry Notification w = Some (n, retry', w') \<longrightarrow>
        ch (tlsNotifier (UpdateDB ((UpdateDB s c)\<lparr>tlsNotifier := n\<rparr>) c')) =
          tlsFieldsDiffer (cacheToCredsDB c) (cacheToCredsDB c'))"
proof -
  let ?chg = "case db s of None \<Rightarrow> True | Some old \<Rightarrow> tlsFieldsDiffer old (cacheToCredsDB c)"
  have 0: "UpdateDB s c =
     s\<lparr>db := Some (cacheToCredsDB c), freshChan := False,
       tlsNotifier := (if ?chg then notifyTLSChange (tlsNotifier s) else tlsNotifier s)\<rparr>"
    by (simp add: UpdateDB_eq [of s c] needRefreshTLS_iff)
  have 1: "tlsNotifier (UpdateDB s c) =
     (if ?chg then notifyTLSChange (tlsNotifier s) else tlsNotifier s)"
    by (simp add: tlsNotifier_UpdateDB needRefreshTLS_iff)
  have 2: "ch (tlsNotifier (UpdateDB s c)) = (ch (tlsNotifier s) \<or> ?chg)"
    by (simp add: 1 notifyTLSChange_def notifyTLSChangeLocked_def)
  have 3: "\<not> tlsFieldsDiffer (cacheToCredsDB c) (cacheToCredsDB c') \<longrightarrow>
        tlsNotifier (UpdateDB (UpdateDB s c) c') = tlsNotifier (UpdateDB s c)"
    by (simp add: tlsNotifier_UpdateDB [of "UpdateDB s c"] needRefreshTLS_iff db_UpdateDB)
  have 4: "tlsNotifier (UpdateDB ((UpdateDB s c)\<lparr>tlsNotifier := m\<rparr>) c') =
       (if tlsFieldsDiffer (cacheToCredsDB c) (cacheToCredsDB c') then notifyTLSChange m else m)" for m
    by (simp add: tlsNotifier_UpdateDB [of "(UpdateDB s c)\<lparr>tlsNotifier := m\<rparr>"] needRefreshTLS_iff
          db_UpdateDB)
  have 5: "loop_round (tlsNotifier (UpdateDB s c)) retry Notification w = Some (n, retry', w') \<longrightarrow>
        ch (tlsNotifier (UpdateDB ((UpdateDB s c)\<lparr>tlsNotifier := n\<rparr>) c')) =
          tlsFieldsDiffer (cacheToCredsDB c) (cacheToCredsDB c')"
  proof
    assume "loop_round (tlsNotifier (UpdateDB s c)) retry Notification w = Some (n, retry', w')"
    then have "n = (tlsNotifier (UpdateDB s c))\<lparr>ch := False\<rparr>" by (rule loop_round_Notification)
    then have "\<not> ch n" by simp
    then show "ch (tlsNotifier (UpdateDB ((UpdateDB s c)\<lparr>tlsNotifier := n\<rparr>) c')) =
          tlsFieldsDiffer (cacheToCredsDB c) (cacheToCredsDB c')"
      by (simp add: 4 notifyTLSChange_def notifyTLSChangeLocked_def)
  qed
  show ?thesis by (intro conjI) (rule 0 db_UpdateDB 1 2 3 4 5)+
qed


theorem C7_tls_notification_witness:
  "db newAuth = None
   \<and> db (UpdateDB newAuth newCache) = Some (cacheToCredsDB newCache)
   \<and> ch (tlsNotifier (UpdateDB newAuth newCache))
   \<and> \<not> tlsFieldsDiffer (cacheToCredsDB newCache) (cacheToCredsDB servicePwdCache)
   \<and> tlsNotifier (UpdateDB (UpdateDB newAuth newCache) servicePwdCache) =
       tlsNotifier (UpdateDB newAuth newCache)
   \<and> loop_round (tlsNotifier (UpdateDB newAuth newCache)) False Notification () =
       Some (\<lparr>ch = False, callback = None\<rparr>, False, ())
   \<and> \<not> ch (tlsNotifier (UpdateDB ((UpdateDB newAuth newCache)
                                      \<lparr>tlsNotifier := \<lparr>ch = False, callback = None\<rparr>\<rparr>)
                           servicePwdCache))
   \<and> db (UpdateDB ((UpdateDB newAuth newCache)\<lparr>tlsNotifier := \<lparr>ch = False, callback = None\<rparr>\<rparr>)
                servicePwdCache) = Some (cacheToCredsDB servicePwdCache)
   \<and> tlsFieldsDiffer (cacheToCredsDB newCache) (cacheToCredsDB (newCache\<lparr>CertVersion := 1\<rparr>))
   \<and> ch (tlsNotifier (UpdateDB ((UpdateDB newAuth newCache)
                                    \<lparr>tlsNotifier := \<lparr>ch = False, callback = None\<rparr>\<rparr>)
                         (newCache\<lparr>CertVersion := 1\<rparr>)))"
proof -
  let ?n = "\<lparr>ch = False, callback = None\<rparr> :: unit tlsNotifier"
  have a: "db newAuth = None" and n0: "tlsNotifier newAuth = ?n"
    by (simp_all add: newAuth_def newTLSNotifier_def)
  have b: "\<not> tlsFieldsDiffer (cacheToCredsDB newCache) (cacheToCredsDB servicePwdCache)"
    by (simp add: tlsFieldsDiffer_def cacheToCredsDB_def newCache_def servicePwdCache_def
          zeroCache_def Let_def)
  have c: "tlsFieldsDiffer (cacheToCredsDB newCache) (cacheToCredsDB (newCache\<lparr>CertVersion := 1\<rparr>))"
    by (simp add: tlsFieldsDiffer_def cacheToCredsDB_def Let_def newCache_def zeroCache_def)
  note w1 = C7_tls_notification [where s = newAuth and c = newCache and c' = servicePwdCache
              and n = ?n and retry = False and w = "()" and retry' = False and w' = "()"]
  note w2 = C7_tls_notification [where s = newAuth and c = newCache
              and c' = "newCache\<lparr>CertVersion := 1\<rparr>"
              and n = ?n and retry = False and w = "()" and retry' = False and w' = "()"]
  note r1 = w1 [THEN conjunct2]
  note r2 = w2 [THEN conjunct2]
  have d1: "db (UpdateDB newAuth newCache) = Some (cacheToCredsDB newCache)"
    by (rule r1 [THEN conjunct1])
  have t1: "tlsNotifier (UpdateDB newAuth newCache) = \<lparr>ch = True, callback = None\<rparr>"
    using r1 [THEN conjunct2, THEN conjunct1] a n0
    by (simp add: notifyTLSChange_def notifyTLSChangeLocked_def)
  have c1: "ch (tlsNotifier (UpdateDB newAuth newCache))" by (simp add: t1)
  have s1: "tlsNotifier (UpdateDB (UpdateDB newAuth newCache) servicePwdCache) =
       tlsNotifier (UpdateDB newAuth newCache)"
    using r1 [THEN conjunct2, THEN conjunct2, THEN conjunct2, THEN conjunct1] b by blast
  have l: "loop_round (tlsNotifier (UpdateDB newAuth newCache)) False Notification () =
       Some (?n, False, ())"
    by (simp add: t1 loop_round_def loop_body_def maybeExecuteCallback_def getCallback_def)
  have q1: "\<not> ch (tlsNotifier (UpdateDB ((UpdateDB newAuth newCache)\<lparr>tlsNotifier := ?n\<rparr>)
                           servicePwdCache))"
    using r1 [THEN conjunct2, THEN conjunct2, THEN conjunct2, THEN conjunct2, THEN conjunct2] l b
    by blast
  have q2: "ch (tlsNotifier (UpdateDB ((UpdateDB newAuth newCache)\<lparr>tlsNotifier := ?n\<rparr>)
                         (newCache\<lparr>CertVersion := 1\<rparr>)))"
    using r2 [THEN conjunct2, THEN conjunct2, THEN conjunct2, THEN conjunct2, THEN conjunct2] l c
    by blast
  have d2: "db (UpdateDB ((UpdateDB newAuth newCache)\<lparr>tlsNotifier := ?n\<rparr>) servicePwdCache) =
              Some (cacheToCredsDB servicePwdCache)"
    by (rule db_UpdateDB)
  show ?thesis by (intro conjI) (rule a d1 c1 b s1 l q1 d2 c q2)+
qed

section \<open>The TLS notifier's callback\<close>

text \<open>
  C8. The notifier has one callback field. Registering while a callback is registered
  returns \<open>ErrCallbackAlreadyRegistered\<close> and leaves the notifier, and so the callback in
  place, as it was. Registering a callback while none is registered returns the nil
  error, stores the callback and leaves a notification pending in the channel; the
  round of \<open>loop\<close> that takes this notification runs the callback.
\<close>

theorem C8_register_callback:
  "(callback n = Some old \<longrightarrow>
      registerCallback n cb = (Some ErrCallbackAlreadyRegistered, n)
      \<and> callback (snd (registerCallback n cb)) = Some old)
   \<and> (callback n = None \<longrightarrow>
      registerCallback n (Some f) = (None, n\<lparr>ch := True, callback := Some f\<rparr>)
      \<and> loop_round (snd (registerCallback n (Some f))) retry Notification w =
          Some (n\<lparr>ch := False, callback := Some f\<rparr>, fst (f w) \<noteq> None, snd (f w)))"
proof (intro conjI impI)
  assume a: "callback n = Some old"
  then show "registerCallback n cb = (Some ErrCallbackAlreadyRegistered, n)"
    by (simp add: registerCallback_def)
  with a show "callback (snd (registerCallback n cb)) = Some old" by simp
next
  assume a: "callback n = None"
  then show r: "registerCallback n (Some f) = (None, n\<lparr>ch := True, callback := Some f\<rparr>)"
    by (cases "ch n") (simp_all add: registerCallback_def notifyTLSChangeLocked_def)
  show "loop_round (snd (registerCallback n (Some f))) retry Notification w =
          Some (n\<lparr>ch := False, callback := Some f\<rparr>, fst (f w) \<noteq> None, snd (f w))"
    by (cases "f w"; cases "fst (f w)")
       (simp_all add: r loop_round_def loop_body_def maybeExecuteCallback_def getCallback_def)
qed

theorem C8_register_callback_witness:
  "callback (newTLSNotifier :: nat tlsNotifier) = None
   \<and> registerCallback newTLSNotifier (Some (\<lambda>w::nat. (None, Suc w))) =
       (None, \<lparr>ch = True, callback = Some (\<lambda>w::nat. (None, Suc w))\<rparr>)
   \<and> loop_round \<lparr>ch = True, callback = Some (\<lambda>w::nat. (None, Suc w))\<rparr> False Notification 0 =
       Some (\<lparr>ch = False, callback = Some (\<lambda>w::nat. (None, Suc w))\<rparr>, False, 1)
   \<and> registerCallback \<lparr>ch = False, callback = Some (\<lambda>w::nat. (None, Suc w))\<rparr>
         (Some (\<lambda>w::nat. (Some ErrNoAuth, w))) =
       (Some ErrCallbackAlreadyRegistered, \<lparr>ch = False, callback = Some (\<lambda>w::nat. (None, Suc w))\<rparr>)"
proof -
  have a: "callback (newTLSNotifier :: nat tlsNotifier) = None" by (simp add: newTLSNotifier_def)
  from C8_register_callback [of "newTLSNotifier :: nat tlsNotifier" _ _ "\<lambda>w::nat. (None, Suc w)" False 0]
       C8_register_callback [of "\<lparr>ch = False, callback = Some (\<lambda>w::nat. (None, Suc w))\<rparr>"
                               "\<lambda>w::nat. (None, Suc w)" "Some (\<lambda>w::nat. (Some ErrNoAuth, w))"]
       a
  show ?thesis by (auto simp add: newTLSNotifier_def)
qed

section \<open>An empty auth-check URL\<close>

lemma LRUCache_Get_miss: "map_of (items c) k = None \<Longrightarrow> LRUCache_Get c k = (None, c)"
  by (simp add: LRUCache_Get_def)

lemma getUserIdentityFromCert_no_url:
  "authCheckURL d = [] \<Longrightarrow> getUserIdentityFromCert L cert d s = (Returns (None, Some ErrNoAuth), s)"
  by (simp add: getUserIdentityFromCert_def)

lemma clientCertCacheOnce_upd:
  "clientCertCacheOnce (s\<lparr>clientCertCache := Some c\<rparr>) = c"
  by (simp add: clientCertCacheOnce_def)

text \<open>
  C10 (as amended). With a snapshot current whose auth-check URL is empty,
  \<open>VerifyOnServer\<close> returns \<open>ErrNoAuth\<close> and \<open>getUserIdentityFromCert\<close> returns \<open>ErrNoAuth\<close>,
  both leaving the service as it was. \<open>MaybeGetCredsFromCert\<close> drops the error of
  \<open>getUserIdentityFromCert\<close>: for a presented certificate that is not in the cache (mode
  neither "disable" nor unset) it returns \<open>ErrUserNotFound\<close>, and the only change to the
  service is that the certificate cache now exists, with the entries it had; no request
  is made.
\<close>

theorem C10_empty_auth_url:
  assumes "db s = Some d" and "authCheckURL d = []"
  shows "VerifyOnServer L s hdrs = (Returns (None, Some ErrNoAuth), s)
     \<and> getUserIdentityFromCert L cert d s = (Returns (None, Some ErrNoAuth), s)
     \<and> (TLS req = Some cs \<and> PeerCertificates cs = cert # others
          \<and> clientCertAuthState d \<noteq> ''disable'' \<and> clientCertAuthState d \<noteq> []
          \<and> map_of (items (clientCertCacheOnce s))
                (clienCertHash (md5sum L (Raw cert)) (clientCertAuthVersion d)) = None
        \<longrightarrow> MaybeGetCredsFromCert L s req =
              (Returns (None, Some ErrUserNotFound),
               s\<lparr>clientCertCache := Some (clientCertCacheOnce s)\<rparr>))"
proof (intro conjI impI)
  show "VerifyOnServer L s hdrs = (Returns (None, Some ErrNoAuth), s)"
    using assms by (simp add: VerifyOnServer_def fetchDB_Some)
  show "getUserIdentityFromCert L cert d s = (Returns (None, Some ErrNoAuth), s)"
    using assms(2) by (rule getUserIdentityFromCert_no_url)
next
  assume h: "TLS req = Some cs \<and> PeerCertificates cs = cert # others
          \<and> clientCertAuthState d \<noteq> ''disable'' \<and> clientCertAuthState d \<noteq> []
          \<and> map_of (items (clientCertCacheOnce s))
                (clienCertHash (md5sum L (Raw cert)) (clientCertAuthVersion d)) = None"
  then have g: "LRUCache_Get (clientCertCacheOnce s)
                  (clienCertHash (md5sum L (Raw cert)) (clientCertAuthVersion d)) =
                (None, clientCertCacheOnce s)"
    by (simp add: LRUCache_Get_miss)
  show "MaybeGetCredsFromCert L s req =
              (Returns (None, Some ErrUserNotFound),
               s\<lparr>clientCertCache := Some (clientCertCacheOnce s)\<rparr>)"
    using assms h
    by (simp add: MaybeGetCredsFromCert_def fetchDB_Some g getUserIdentityFromCert_no_url Let_def
          clientCertCacheOnce_upd)
qed


lemma db_certAuth: "cacheToCredsDB certAuthCache =
   \<lparr>nodes = [], authCheckURL = [], permissionCheckURL = [], specialUser = [], specialPassword = [],
    permissionsVersion = [], authVersion = [], certVersion = 0, extractUserFromCertURL = [],
    clientCertAuthState = ''enable'', clientCertAuthVersion = [],
    tlsConfig = \<lparr>MinVersion = VersionTLS10, CipherSuites = [], CipherSuiteNames = [],
                  CipherSuiteOpenSSLNames = [], PreferServerCipherSuites = False\<rparr>\<rparr>"
  by (simp add: cacheToCredsDB_def certAuthCache_def zeroCache_def zeroTLSConfigImport_def
        importTLSConfig_def minTLSVersion_def toLower_def Let_def)

text \<open>
  C10 as stated fails for the certificate path: on the snapshot of \<open>certAuthCache\<close>, whose
  auth-check URL is empty, the extraction for a presented certificate returns
  \<open>ErrUserNotFound\<close>, not \<open>ErrNoAuth\<close>.
\<close>

theorem C10_counterexample:
  "db (UpdateDB newAuth certAuthCache) = Some (cacheToCredsDB certAuthCache)
   \<and> authCheckURL (cacheToCredsDB certAuthCache) = []
   \<and> fst (MaybeGetCredsFromCert sampleLib (UpdateDB newAuth certAuthCache)
              (tlsRequest [\<lparr>Raw = ''DER''\<rparr>])) = Returns (None, Some ErrUserNotFound)
   \<and> fst (MaybeGetCredsFromCert sampleLib (UpdateDB newAuth certAuthCache)
              (tlsRequest [\<lparr>Raw = ''DER''\<rparr>])) \<noteq> Returns (None, Some ErrNoAuth)"
proof -
  have d: "db (UpdateDB newAuth certAuthCache) = Some (cacheToCredsDB certAuthCache)"
    by (rule db_UpdateDB)
  have c: "clientCertCache (UpdateDB newAuth certAuthCache) = None"
    by (simp add: UpdateDB_def updateDBLocked_def Let_def newAuth_def)
  have r: "fst (MaybeGetCredsFromCert sampleLib (UpdateDB newAuth certAuthCache)
              (tlsRequest [\<lparr>Raw = ''DER''\<rparr>])) = Returns (None, Some ErrUserNotFound)"
    by (simp add: MaybeGetCredsFromCert_def fetchDB_Some [OF d] db_certAuth tlsRequest_def
          clientCertCacheOnce_def c NewLRUCache_def LRUCache_Get_def getUserIdentityFromCert_def)
  from d r show ?thesis by (simp add: db_certAuth)
qed

theorem C10_empty_auth_url_witness:
  "db (UpdateDB newAuth certAuthCache) = Some (cacheToCredsDB certAuthCache)
   \<and> authCheckURL (cacheToCredsDB certAuthCache) = []
   \<and> VerifyOnServer sampleLib (UpdateDB newAuth certAuthCache) Map.empty =
        (Returns (None, Some ErrNoAuth), UpdateDB newAuth certAuthCache)
   \<and> getUserIdentityFromCert sampleLib \<lparr>Raw = ''DER''\<rparr> (cacheToCredsDB certAuthCache)
         (UpdateDB newAuth certAuthCache) =
        (Returns (None, Some ErrNoAuth), UpdateDB newAuth certAuthCache)
   \<and> MaybeGetCredsFromCert sampleLib (UpdateDB newAuth certAuthCache) (tlsRequest [\<lparr>Raw = ''DER''\<rparr>]) =
        (Returns (None, Some ErrUserNotFound),
         (UpdateDB newAuth certAuthCache)\<lparr>clientCertCache := Some (NewLRUCache 256)\<rparr>)
   \<and> outbound ((UpdateDB newAuth certAuthCache)\<lparr>clientCertCache := Some (NewLRUCache 256)\<rparr>) = []"
proof -
  have d: "db (UpdateDB newAuth certAuthCache) = Some (cacheToCredsDB certAuthCache)"
    by (rule db_UpdateDB)
  have u: "authCheckURL (cacheToCredsDB certAuthCache) = []" by (simp add: db_certAuth)
  have c: "clientCertCacheOnce (UpdateDB newAuth certAuthCache) = NewLRUCache 256"
    by (simp add: UpdateDB_def updateDBLocked_def Let_def newAuth_def clientCertCacheOnce_def)
  have o: "outbound (UpdateDB newAuth certAuthCache) = []"
    by (simp add: UpdateDB_def updateDBLocked_def Let_def newAuth_def)
  have m: "map_of (items (NewLRUCache 256 :: (clienCertHash, userIdentity) LRUCache)) k = None" for k
    by (simp add: NewLRUCache_def)
  from C10_empty_auth_url [OF d u, where req = "tlsRequest [\<lparr>Raw = ''DER''\<rparr>]"
          and cs = "\<lparr>PeerCertificates = [\<lparr>Raw = ''DER''\<rparr>]\<rparr>" and cert = "\<lparr>Raw = ''DER''\<rparr>"
          and others = "[]" and L = sampleLib and hdrs = Map.empty] d u c o m
  show ?thesis by (simp add: tlsRequest_def db_certAuth)
qed

section \<open>Certificate extraction as a no-op\<close>

text \<open>
  C2 (as amended). With a snapshot current, \<open>MaybeGetCredsFromCert\<close> returns no identity
  and no error, and makes no request, in three cases: the request did not come over TLS
  (whatever the mode); the mode is "disable" or unset (whatever the certificates); the
  mode is "enable" and no peer certificate was presented. In the last two the only
  change to the service is that the certificate cache exists afterwards.
\<close>

theorem C2_cert_noop:
  assumes "db s = Some d"
  shows "(TLS req = None \<longrightarrow> MaybeGetCredsFromCert L s req = (Returns (None, None), s))
     \<and> (TLS req = Some cs \<and> (clientCertAuthState d = ''disable'' \<or> clientCertAuthState d = [])
          \<longrightarrow> MaybeGetCredsFromCert L s req =
                (Returns (None, None), s\<lparr>clientCertCache := Some (clientCertCacheOnce s)\<rparr>))
     \<and> (TLS req = Some cs \<and> clientCertAuthState d = ''enable'' \<and> PeerCertificates cs = []
          \<longrightarrow> MaybeGetCredsFromCert L s req =
                (Returns (None, None), s\<lparr>clientCertCache := Some (clientCertCacheOnce s)\<rparr>))"
  using assms by (simp add: MaybeGetCredsFromCert_def fetchDB_Some Let_def)

lemma clientCertAuthState_mandatory:
  "clientCertAuthState (cacheToCredsDB mandatoryCertCache) = ''mandatory''"
  by (simp add: cacheToCredsDB_def mandatoryCertCache_def Let_def)

text \<open>
  C2 as stated fails in the mode "mandatory": for a TLS request without a peer certificate
  the code indexes the empty certificate list and panics.
\<close>

theorem C2_counterexample:
  "db (UpdateDB newAuth mandatoryCertCache) = Some (cacheToCredsDB mandatoryCertCache)
   \<and> clientCertAuthState (cacheToCredsDB mandatoryCertCache) = ''mandatory''
   \<and> TLS (tlsRequest []) = Some \<lparr>PeerCertificates = []\<rparr>
   \<and> fst (MaybeGetCredsFromCert sampleLib (UpdateDB newAuth mandatoryCertCache) (tlsRequest [])) =
       Panics (IndexOutOfRange 0 0)
   \<and> fst (MaybeGetCredsFromCert sampleLib (UpdateDB newAuth mandatoryCertCache) (tlsRequest [])) \<noteq>
       Returns (None, None)"
proof -
  have d: "db (UpdateDB newAuth mandatoryCertCache) = Some (cacheToCredsDB mandatoryCertCache)"
    by (rule db_UpdateDB)
  have r: "fst (MaybeGetCredsFromCert sampleLib (UpdateDB newAuth mandatoryCertCache) (tlsRequest [])) =
       Panics (IndexOutOfRange 0 0)"
    by (simp add: MaybeGetCredsFromCert_def fetchDB_Some [OF d] clientCertAuthState_mandatory
          tlsRequest_def Let_def)
  from d r show ?thesis by (simp add: clientCertAuthState_mandatory tlsRequest_def)
qed

theorem C2_cert_noop_witness:
  "db (UpdateDB newAuth mandatoryCertCache) = Some (cacheToCredsDB mandatoryCertCache)
   \<and> MaybeGetCredsFromCert sampleLib (UpdateDB newAuth mandatoryCertCache)
        ((tlsRequest [])\<lparr>TLS := None\<rparr>) =
       (Returns (None, None), UpdateDB newAuth mandatoryCertCache)
   \<and> db (UpdateDB newAuth certAuthCache) = Some (cacheToCredsDB certAuthCache)
   \<and> clientCertAuthState (cacheToCredsDB certAuthCache) = ''enable''
   \<and> MaybeGetCredsFromCert sampleLib (UpdateDB newAuth certAuthCache) (tlsRequest []) =
       (Returns (None, None),
        (UpdateDB newAuth certAuthCache)\<lparr>clientCertCache := Some (NewLRUCache 256)\<rparr>)
   \<and> db (UpdateDB newAuth newCache) = Some (cacheToCredsDB newCache)
   \<and> clientCertAuthState (cacheToCredsDB newCache) = []
   \<and> MaybeGetCredsFromCert sampleLib (UpdateDB newAuth newCache) (tlsRequest [\<lparr>Raw = ''DER''\<rparr>]) =
       (Returns (None, None),
        (UpdateDB newAuth newCache)\<lparr>clientCertCache := Some (NewLRUCache 256)\<rparr>)"
proof -
  have d1: "db (UpdateDB newAuth mandatoryCertCache) = Some (cacheToCredsDB mandatoryCertCache)"
    and d2: "db (UpdateDB newAuth certAuthCache) = Some (cacheToCredsDB certAuthCache)"
    and d3: "db (UpdateDB newAuth newCache) = Some (cacheToCredsDB newCache)"
    by (rule db_UpdateDB)+
  have e2: "clientCertAuthState (cacheToCredsDB certAuthCache) = ''enable''"
    by (simp add: cacheToCredsDB_def certAuthCache_def Let_def)
  have e3: "clientCertAuthState (cacheToCredsDB newCache) = []"
    by (simp add: cacheToCredsDB_def newCache_def zeroCache_def Let_def)
  have c: "clientCertCacheOnce (UpdateDB newAuth c) = NewLRUCache 256" for c
    by (simp add: UpdateDB_def updateDBLocked_def Let_def newAuth_def clientCertCacheOnce_def)
  from C2_cert_noop [OF d1, where req = "(tlsRequest [])\<lparr>TLS := None\<rparr>" and L = sampleLib]
       C2_cert_noop [OF d2, where req = "tlsRequest []" and L = sampleLib
                       and cs = "\<lparr>PeerCertificates = []\<rparr>"]
       C2_cert_noop [OF d3, where req = "tlsRequest [\<lparr>Raw = ''DER''\<rparr>]" and L = sampleLib
                       and cs = "\<lparr>PeerCertificates = [\<lparr>Raw = ''DER''\<rparr>]\<rparr>"]
       d1 d2 d3 e2 e3 c
  show ?thesis by (simp add: tlsRequest_def)
qed

section \<open>Service credentials\<close>

lemma matchHost_specMatch: "matchHost L n host = specMatch L n host"
proof (cases "ParseIP L (Host n)")
  case None
  then show ?thesis
    by (cases "ParseIP L host") (auto simp add: matchHost_def specMatch_def ipIsLoopback_def Let_def)
next
  case (Some a)
  then show ?thesis
    by (cases "ParseIP L host") (auto simp add: matchHost_def specMatch_def ipIsLoopback_def Let_def)
qed

lemma portsLoop_eq:
  "portsLoop ps port n = (if port \<in> set ps then (User n, Password n) else ([], []))"
  by (induction ps) auto

lemma getMemcachedCreds_eq:
  "getMemcachedCreds L n host port =
     (if matchHost L n host \<and> port \<in> set (Ports n) then (User n, Password n) else ([], []))"
  by (simp add: getMemcachedCreds_def portsLoop_eq)

lemma GetCreds_loop_first:
  assumes "\<forall>m \<in> set pre. \<not> (matchHost L m host \<and> port \<in> set (Ports m) \<and> User m \<noteq> [])"
    and "matchHost L n host" and "port \<in> set (Ports n)" and "User n \<noteq> []"
  shows "GetCreds_loop L d (pre @ n # post) host port acc = (User n, specialUser d, Password n)"
  using assms
proof (induction pre arbitrary: acc)
  case Nil
  then show ?case by (cases acc) (simp add: getMemcachedCreds_eq)
next
  case (Cons m pre)
  then show ?case by (cases acc) (auto simp add: getMemcachedCreds_eq)
qed

lemma GetCreds_loop_none:
  assumes "\<forall>m \<in> set ns. \<not> (matchHost L m host \<and> port \<in> set (Ports m))"
  shows "GetCreds_loop L d ns host port ([], []) = ([], [], [])"
  using assms by (induction ns) (auto simp add: getMemcachedCreds_eq)


lemma GetCreds_Some:
  "db s = Some d \<Longrightarrow> GetCreds L s host port =
     (case GetCreds_loop L d (nodes d) host port ([], []) of
        (memcachedUser, user, pwd) \<Rightarrow> Returns (memcachedUser, user, pwd, None))"
  by (simp add: GetCreds_def fetchDB_Some)

lemma GetCreds_loop_eq:
  "GetCreds_loop L d ns host port (mu, pw) =
     (case find (\<lambda>m. matchHost L m host \<and> port \<in> set (Ports m) \<and> User m \<noteq> []) ns of
        Some n \<Rightarrow> (User n, specialUser d, Password n)
      | None \<Rightarrow>
          if ns = [] then (mu, [], pw)
          else if matchHost L (last ns) host \<and> port \<in> set (Ports (last ns))
          then ([], [], Password (last ns))
          else ([], [], []))"
proof (induction ns arbitrary: mu pw)
  case Nil
  show ?case by simp
next
  case (Cons m ns)
  show ?case
    by (cases "ns = []") (auto simp add: getMemcachedCreds_eq Cons.IH split: option.splits)
qed

lemma GetCreds_eq:
  assumes "db s = Some d"
  shows "GetCreds L s host port =
     Returns
       (case find (\<lambda>m. matchHost L m host \<and> port \<in> set (Ports m) \<and> User m \<noteq> []) (nodes d) of
          Some n \<Rightarrow> (User n, specialUser d, Password n, None)
        | None \<Rightarrow>
            if nodes d \<noteq> [] \<and> matchHost L (last (nodes d)) host
               \<and> port \<in> set (Ports (last (nodes d)))
            then ([], [], Password (last (nodes d)), None)
            else ([], [], [], None))"
  by (auto simp add: GetCreds_Some [OF assms] GetCreds_loop_eq split: option.splits)


text \<open>
  C3 (as amended). \<open>matchHost\<close> holds exactly in the spec's four cases. Call a node
  serving when it matches the queried host and has the queried port in its port list.
  With a snapshot current, \<open>GetCreds\<close> goes through the node list in order and returns
  the user and password of the first serving node whose user is not empty, with the
  snapshot's special user. When there is no such node it returns the user and password
  of the last node of the list if that node is serving (its user is then empty, and so
  is the special user returned), and three empty strings if it is not; so a serving
  node with an empty user has its password returned only as the last node of the list.
  When no node matches host and port the result is three empty strings; the error is
  nil throughout. For the one-node list of the scenario, and "beta.local" not an IP
  literal, port 9000 gives "_admin" and "foobar" and port 7000 gives empty strings.
  The last conjunct is the whole result as one equation.
\<close>

theorem C3_service_creds:
  assumes "db s = Some d"
  shows "matchHost L n host = specMatch L n host
     \<and> (nodes d = pre @ n # post
          \<and> (\<forall>m \<in> set pre. \<not> (matchHost L m host \<and> port \<in> set (Ports m) \<and> User m \<noteq> []))
          \<and> matchHost L n host \<and> port \<in> set (Ports n) \<and> User n \<noteq> []
        \<longrightarrow> GetCreds L s host port = Returns (User n, specialUser d, Password n, None))
     \<and> ((\<forall>m \<in> set (nodes d). \<not> (matchHost L m host \<and> port \<in> set (Ports m)))
        \<longrightarrow> GetCreds L s host port = Returns ([], [], [], None))
     \<and> (nodes d = [mkNode ''beta.local'' ''_admin'' ''foobar'' [9000, 12000] loc]
          \<and> ParseIP L ''beta.local'' = None
        \<longrightarrow> GetCreds L s ''beta.local'' 9000 = Returns (''_admin'', specialUser d, ''foobar'', None)
            \<and> GetCreds L s ''beta.local'' 7000 = Returns ([], [], [], None))
     \<and> (nodes d = pre @ [n]
          \<and> (\<forall>m \<in> set pre. \<not> (matchHost L m host \<and> port \<in> set (Ports m) \<and> User m \<noteq> []))
          \<and> matchHost L n host \<and> port \<in> set (Ports n) \<and> User n = []
        \<longrightarrow> GetCreds L s host port = Returns (User n, [], Password n, None))
     \<and> (nodes d = pre @ [n]
          \<and> (\<forall>m \<in> set pre. \<not> (matchHost L m host \<and> port \<in> set (Ports m) \<and> User m \<noteq> []))
          \<and> \<not> (matchHost L n host \<and> port \<in> set (Ports n))
        \<longrightarrow> GetCreds L s host port = Returns ([], [], [], None))
     \<and> GetCreds L s host port =
         Returns
           (case find (\<lambda>m. matchHost L m host \<and> port \<in> set (Ports m) \<and> User m \<noteq> [])
                   (nodes d) of
              Some m \<Rightarrow> (User m, specialUser d, Password m, None)
            | None \<Rightarrow>
                if nodes d \<noteq> [] \<and> matchHost L (last (nodes d)) host
                   \<and> port \<in> set (Ports (last (nodes d)))
                then ([], [], Password (last (nodes d)), None)
                else ([], [], [], None))"
proof (intro conjI impI)
  show "matchHost L n host = specMatch L n host" by (rule matchHost_specMatch)
next
  assume h: "nodes d = pre @ n # post
          \<and> (\<forall>m \<in> set pre. \<not> (matchHost L m host \<and> port \<in> set (Ports m) \<and> User m \<noteq> []))
          \<and> matchHost L n host \<and> port \<in> set (Ports n) \<and> User n \<noteq> []"
  then have "GetCreds_loop L d (nodes d) host port ([], []) = (User n, specialUser d, Password n)"
    by (simp add: GetCreds_loop_first)
  then show "GetCreds L s host port = Returns (User n, specialUser d, Password n, None)"
    by (simp add: GetCreds_Some [OF assms])
next
  assume "\<forall>m \<in> set (nodes d). \<not> (matchHost L m host \<and> port \<in> set (Ports m))"
  then have "GetCreds_loop L d (nodes d) host port ([], []) = ([], [], [])"
    by (rule GetCreds_loop_none)
  then show "GetCreds L s host port = Returns ([], [], [], None)"
    by (simp add: GetCreds_Some [OF assms])
next
  assume h: "nodes d = [mkNode ''beta.local'' ''_admin'' ''foobar'' [9000, 12000] loc]
          \<and> ParseIP L ''beta.local'' = None"
  then have m: "matchHost L (mkNode ''beta.local'' ''_admin'' ''foobar'' [9000, 12000] loc) ''beta.local''"
    by (simp add: matchHost_def mkNode_def ipIsLoopback_def)
  show "GetCreds L s ''beta.local'' 9000 = Returns (''_admin'', specialUser d, ''foobar'', None)"
    using h m by (simp add: GetCreds_Some [OF assms] getMemcachedCreds_eq) (simp add: mkNode_def)
  show "GetCreds L s ''beta.local'' 7000 = Returns ([], [], [], None)"
    using h by (simp add: GetCreds_Some [OF assms] getMemcachedCreds_eq) (simp add: mkNode_def)
next
  assume h: "nodes d = pre @ [n]
          \<and> (\<forall>m \<in> set pre. \<not> (matchHost L m host \<and> port \<in> set (Ports m) \<and> User m \<noteq> []))
          \<and> matchHost L n host \<and> port \<in> set (Ports n) \<and> User n = []"
  then have "find (\<lambda>m. matchHost L m host \<and> port \<in> set (Ports m) \<and> User m \<noteq> []) (nodes d) = None"
    by (auto simp add: find_None_iff)
  with h show "GetCreds L s host port = Returns (User n, [], Password n, None)"
    by (simp add: GetCreds_eq [OF assms])
next
  assume h: "nodes d = pre @ [n]
          \<and> (\<forall>m \<in> set pre. \<not> (matchHost L m host \<and> port \<in> set (Ports m) \<and> User m \<noteq> []))
          \<and> \<not> (matchHost L n host \<and> port \<in> set (Ports n))"
  then have "find (\<lambda>m. matchHost L m host \<and> port \<in> set (Ports m) \<and> User m \<noteq> []) (nodes d) = None"
    by (auto simp add: find_None_iff)
  with h show "GetCreds L s host port = Returns ([], [], [], None)"
    by (auto simp add: GetCreds_eq [OF assms])
next
  show "GetCreds L s host port =
         Returns
           (case find (\<lambda>m. matchHost L m host \<and> port \<in> set (Ports m) \<and> User m \<noteq> [])
                   (nodes d) of
              Some m \<Rightarrow> (User m, specialUser d, Password m, None)
            | None \<Rightarrow>
                if nodes d \<noteq> [] \<and> matchHost L (last (nodes d)) host
                   \<and> port \<in> set (Ports (last (nodes d)))
                then ([], [], Password (last (nodes d)), None)
                else ([], [], [], None))"
    by (rule GetCreds_eq [OF assms])
qed


lemma nodes_emptyUserCache:
  "nodes (cacheToCredsDB emptyUserCache) =
     [mkNode ''beta.local'' [] ''foobar'' [9000, 12000] False,
      mkNode ''chi.local'' ''_admin'' ''barfoo'' [9001, 12001] False]"
  by (simp add: cacheToCredsDB_def emptyUserCache_def Let_def)

lemma sampleLib_hostname: "ParseIP sampleLib ''beta.local'' = None"
  by (simp add: sampleLib_def)

text \<open>
  C3 as stated fails where a node's user is empty: in \<open>emptyUserCache\<close> the node
  "beta.local" is the only one that matches the host, its port list has 9000 and its
  password is "foobar", yet the lookup returns empty strings, not that password.
\<close>

theorem C3_counterexample:
  "db (UpdateDB newAuth emptyUserCache) = Some (cacheToCredsDB emptyUserCache)
   \<and> nodes (cacheToCredsDB emptyUserCache) =
       [mkNode ''beta.local'' [] ''foobar'' [9000, 12000] False,
        mkNode ''chi.local'' ''_admin'' ''barfoo'' [9001, 12001] False]
   \<and> matchHost sampleLib (mkNode ''beta.local'' [] ''foobar'' [9000, 12000] False) ''beta.local''
   \<and> 9000 \<in> set (Ports (mkNode ''beta.local'' [] ''foobar'' [9000, 12000] False))
   \<and> \<not> matchHost sampleLib (mkNode ''chi.local'' ''_admin'' ''barfoo'' [9001, 12001] False) ''beta.local''
   \<and> Password (mkNode ''beta.local'' [] ''foobar'' [9000, 12000] False) = ''foobar''
   \<and> GetCreds sampleLib (UpdateDB newAuth emptyUserCache) ''beta.local'' 9000 =
       Returns ([], [], [], None)"
proof -
  have d: "db (UpdateDB newAuth emptyUserCache) = Some (cacheToCredsDB emptyUserCache)"
    by (rule db_UpdateDB)
  have m1: "matchHost sampleLib (mkNode ''beta.local'' [] ''foobar'' [9000, 12000] False) ''beta.local''"
    by (simp add: matchHost_def mkNode_def sampleLib_def ipIsLoopback_def)
  have m2: "\<not> matchHost sampleLib (mkNode ''chi.local'' ''_admin'' ''barfoo'' [9001, 12001] False) ''beta.local''"
    by (simp add: matchHost_def mkNode_def sampleLib_def ipIsLoopback_def)
  have g: "GetCreds sampleLib (UpdateDB newAuth emptyUserCache) ''beta.local'' 9000 =
       Returns ([], [], [], None)"
    by (simp add: GetCreds_Some [OF d] nodes_emptyUserCache getMemcachedCreds_eq m1 m2)
       (simp add: mkNode_def)
  from d m1 m2 g show ?thesis by (simp add: nodes_emptyUserCache) (simp add: mkNode_def)
qed

lemma nodes_servicePwdCache:
  "nodes (cacheToCredsDB servicePwdCache) =
     [mkNode ''beta.local'' ''_admin'' ''foobar'' [9000, 12000] False] @
     mkNode ''chi.local'' ''_admin'' ''barfoo'' [9001, 12001] False #
     [mkNode ''fc00:0::10'' ''_admin'' ''barfoo'' [9000, 12000] False]"
  by (simp add: cacheToCredsDB_def servicePwdCache_def Let_def)

lemma nodes_emptyUserLastCache:
  "nodes (cacheToCredsDB emptyUserLastCache) =
     [mkNode ''chi.local'' ''_admin'' ''barfoo'' [9001, 12001] False] @
     [mkNode ''beta.local'' [] ''foobar'' [9000, 12000] False]"
  by (simp add: cacheToCredsDB_def emptyUserLastCache_def Let_def)

theorem C3_service_creds_witness:
  "db (UpdateDB newAuth servicePwdCache) = Some (cacheToCredsDB servicePwdCache)
   \<and> matchHost sampleLib (mkNode ''chi.local'' ''_admin'' ''barfoo'' [9001, 12001] False) ''chi.local''
   \<and> \<not> matchHost sampleLib (mkNode ''beta.local'' ''_admin'' ''foobar'' [9000, 12000] False) ''chi.local''
   \<and> GetCreds sampleLib (UpdateDB newAuth servicePwdCache) ''chi.local'' 12001 =
       Returns (''_admin'', ''@component'', ''barfoo'', None)
   \<and> GetCreds sampleLib (UpdateDB newAuth servicePwdCache) ''unknown'' 9000 =
       Returns ([], [], [], None)
   \<and> db (UpdateDB newAuth betaCache) = Some (cacheToCredsDB betaCache)
   \<and> ParseIP sampleLib ''beta.local'' = None
   \<and> GetCreds sampleLib (UpdateDB newAuth betaCache) ''beta.local'' 9000 =
       Returns (''_admin'', [], ''foobar'', None)
   \<and> GetCreds sampleLib (UpdateDB newAuth betaCache) ''beta.local'' 7000 =
       Returns ([], [], [], None)
   \<and> db (UpdateDB newAuth emptyUserLastCache) = Some (cacheToCredsDB emptyUserLastCache)
   \<and> matchHost sampleLib (mkNode ''beta.local'' [] ''foobar'' [9000, 12000] False) ''beta.local''
   \<and> \<not> matchHost sampleLib (mkNode ''chi.local'' ''_admin'' ''barfoo'' [9001, 12001] False) ''beta.local''
   \<and> GetCreds sampleLib (UpdateDB newAuth emptyUserLastCache) ''beta.local'' 9000 =
       Returns ([], [], ''foobar'', None)
   \<and> db (UpdateDB newAuth emptyUserCache) = Some (cacheToCredsDB emptyUserCache)
   \<and> GetCreds sampleLib (UpdateDB newAuth emptyUserCache) ''beta.local'' 9000 =
       Returns ([], [], [], None)"
proof -
  let ?beta = "mkNode ''beta.local'' ''_admin'' ''foobar'' [9000, 12000] False"
  let ?chi = "mkNode ''chi.local'' ''_admin'' ''barfoo'' [9001, 12001] False"
  let ?fc = "mkNode ''fc00:0::10'' ''_admin'' ''barfoo'' [9000, 12000] False"
  let ?anon = "mkNode ''beta.local'' [] ''foobar'' [9000, 12000] False"
  have d: "db (UpdateDB newAuth servicePwdCache) = Some (cacheToCredsDB servicePwdCache)"
    and d2: "db (UpdateDB newAuth betaCache) = Some (cacheToCredsDB betaCache)"
    and d3: "db (UpdateDB newAuth emptyUserLastCache) = Some (cacheToCredsDB emptyUserLastCache)"
    and d4: "db (UpdateDB newAuth emptyUserCache) = Some (cacheToCredsDB emptyUserCache)"
    by (rule db_UpdateDB)+
  have m1: "matchHost sampleLib ?chi ''chi.local''"
    and m2: "\<not> matchHost sampleLib ?beta ''chi.local''"
    and m3: "matchHost sampleLib ?anon ''beta.local''"
    and m4: "\<not> matchHost sampleLib ?chi ''beta.local''"
    by (simp_all add: matchHost_def mkNode_def sampleLib_def ipIsLoopback_def)
  have u: "\<forall>m \<in> set (nodes (cacheToCredsDB servicePwdCache)).
            \<not> (matchHost sampleLib m ''unknown'' \<and> 9000 \<in> set (Ports m))"
    by (simp add: nodes_servicePwdCache matchHost_def mkNode_def sampleLib_def ipIsLoopback_def)
  have sp: "specialUser (cacheToCredsDB servicePwdCache) = ''@component''"
    by (simp add: cacheToCredsDB_def servicePwdCache_def Let_def)
  have b: "nodes (cacheToCredsDB betaCache) = [?beta]"
    and sb: "specialUser (cacheToCredsDB betaCache) = []"
    by (simp_all add: cacheToCredsDB_def betaCache_def zeroCache_def Let_def)
  have p: "User ?chi = ''_admin''" "Password ?chi = ''barfoo''" "Ports ?chi = [9001, 12001]"
    "User ?anon = []" "Password ?anon = ''foobar''" "Ports ?anon = [9000, 12000]"
    by (simp_all add: mkNode_def)
  note t1 = C3_service_creds [OF d, where L = sampleLib and host = "''chi.local''" and port = 12001
          and n = ?chi and pre = "[?beta]" and post = "[?fc]",
          THEN conjunct2, THEN conjunct1]
  have w1: "GetCreds sampleLib (UpdateDB newAuth servicePwdCache) ''chi.local'' 12001 =
       Returns (''_admin'', ''@component'', ''barfoo'', None)"
    using t1 nodes_servicePwdCache m1 m2 sp p by simp
  note t2 = C3_service_creds [OF d, where L = sampleLib and host = "''unknown''" and port = 9000,
          THEN conjunct2, THEN conjunct2, THEN conjunct1]
  have w2: "GetCreds sampleLib (UpdateDB newAuth servicePwdCache) ''unknown'' 9000 =
       Returns ([], [], [], None)"
    using t2 u by simp
  note t3 = C3_service_creds [OF d2, where L = sampleLib and loc = False,
          THEN conjunct2, THEN conjunct2, THEN conjunct2, THEN conjunct1]
  have w3: "GetCreds sampleLib (UpdateDB newAuth betaCache) ''beta.local'' 9000 =
       Returns (''_admin'', [], ''foobar'', None)
   \<and> GetCreds sampleLib (UpdateDB newAuth betaCache) ''beta.local'' 7000 =
       Returns ([], [], [], None)"
    using t3 b sb sampleLib_hostname by simp
  note t4 = C3_service_creds [OF d3, where L = sampleLib and host = "''beta.local''" and port = 9000
          and n = ?anon and pre = "[?chi]",
          THEN conjunct2, THEN conjunct2, THEN conjunct2, THEN conjunct2, THEN conjunct1]
  have w4: "GetCreds sampleLib (UpdateDB newAuth emptyUserLastCache) ''beta.local'' 9000 =
       Returns ([], [], ''foobar'', None)"
    using t4 nodes_emptyUserLastCache m3 m4 p by simp
  note t5 = C3_service_creds [OF d4, where L = sampleLib and host = "''beta.local''" and port = 9000
          and n = ?chi and pre = "[?anon]",
          THEN conjunct2, THEN conjunct2, THEN conjunct2, THEN conjunct2, THEN conjunct2,
          THEN conjunct1]
  have w5: "GetCreds sampleLib (UpdateDB newAuth emptyUserCache) ''beta.local'' 9000 =
       Returns ([], [], [], None)"
    using t5 nodes_emptyUserCache m3 m4 p by simp
  show ?thesis
    by (intro conjI)
       (rule d d2 d3 d4 m1 m2 m3 m4 w1 w2 sampleLib_hostname w3 [THEN conjunct1]
             w3 [THEN conjunct2] w4 w5)+
qed

section \<open>The permission cache\<close>

lemma semaphore_wait_free:
  "held m < slots m \<Longrightarrow> semaphore_wait m = Some (m\<lparr>held := held m + 1\<rparr>)"
  by (simp add: semaphore_wait_def)

lemma semaphore_signal_wait: "semaphore_signal (m\<lparr>held := Suc (held m)\<rparr>) = m"
  by (simp add: semaphore_signal_def)

lemma semaphore_restored: "s\<lparr>semaphore := semaphore s\<rparr> = s"
  by simp

lemma checkPermissionOnServer_call:
  assumes "held (semaphore s) < slots (semaphore s)" and "urlParse L (permissionCheckURL d) = None"
  shows "checkPermissionOnServer L s d user dm permission =
     (Returns (case httpClient s (outbound s) (permissionCheckRequest L d user dm permission) of
                 Inl err \<Rightarrow> (False, Some err)
               | Inr hresp \<Rightarrow>
                   if StatusCode hresp = 200 then (True, None)
                   else if StatusCode hresp = 401 then (False, None)
                   else (False, Some (ErrReturnCode (StatusCode hresp)))),
      s\<lparr>outbound := outbound s @ [permissionCheckRequest L d user dm permission]\<rparr>)"
proof -
  have r: "NewRequest L ''GET'' (permissionCheckURL d) [] =
             Inr \<lparr>Method = ''GET'', URL = permissionCheckURL d, RawQuery = None,
                  Header = Map.empty, Body = [], TLS = None\<rparr>"
    using assms(2) by (simp add: NewRequest_def)
  show ?thesis
    by (simp add: checkPermissionOnServer_def semaphore_wait_free [OF assms(1)] r Let_def
          SetBasicAuth_def Header_Set_def httpClient_Do_def permissionCheckRequest_def
          semaphore_signal_wait split: sum.splits)
qed


lemma map_of_filter_key:
  "map_of (filter (\<lambda>e. fst e \<noteq> k) xs) k' = (if k' = k then None else map_of xs k')"
  by (induction xs) auto

lemma map_of_touch: "map_of (touch k v xs) k' = (if k' = k then Some v else map_of xs k')"
  by (simp add: touch_def map_of_filter_key)

lemma map_of_butlast_None: "map_of xs k = None \<Longrightarrow> map_of (butlast xs) k = None"
  by (auto simp add: map_of_eq_None_iff dest: in_set_butlastD)

lemma LRUCache_Get_hit:
  "map_of (items c) k = Some v \<Longrightarrow> LRUCache_Get c k = (Some v, c\<lparr>items := touch k v (items c)\<rparr>)"
  by (simp add: LRUCache_Get_def)

lemma LRUCache_Set_same: "map_of (items (LRUCache_Set c k v)) k = Some v"
  by (simp add: LRUCache_Set_def map_of_touch split: option.splits)

lemma LRUCache_Set_other_None:
  "k' \<noteq> k \<Longrightarrow> map_of (items c) k' = None \<Longrightarrow> map_of (items (LRUCache_Set c k v)) k' = None"
  by (simp add: LRUCache_Set_def map_of_touch map_of_butlast_None split: option.splits)

lemma upCacheOnce_upd: "upCacheOnce (s\<lparr>upCache := Some c\<rparr>) = c"
  by (simp add: upCacheOnce_def)

lemma checkPermission_hit:
  assumes "db s = Some d"
    and "map_of (items (upCacheOnce s)) (userPermission (permissionsVersion d) user dm permission) = Some b"
  shows "checkPermission L s user dm permission =
     (Returns (b, None),
      s\<lparr>upCache := Some ((upCacheOnce s)\<lparr>items :=
          touch (userPermission (permissionsVersion d) user dm permission) b (items (upCacheOnce s))\<rparr>)\<rparr>)"
  by (simp add: checkPermission_def fetchDB_Some [OF assms(1)] LRUCache_Get_hit [OF assms(2)])

lemma checkPermission_miss:
  assumes "db s = Some d"
    and "map_of (items (upCacheOnce s)) (userPermission (permissionsVersion d) user dm permission) = None"
    and "held (semaphore s) < slots (semaphore s)" and "urlParse L (permissionCheckURL d) = None"
    and "httpClient s (outbound s) (permissionCheckRequest L d user dm permission) = Inr hresp"
    and "StatusCode hresp = 200 \<or> StatusCode hresp = 401"
  shows "checkPermission L s user dm permission =
     (Returns (StatusCode hresp = 200, None),
      s\<lparr>outbound := outbound s @ [permissionCheckRequest L d user dm permission],
        upCache := Some (LRUCache_Set (upCacheOnce s)
                           (userPermission (permissionsVersion d) user dm permission)
                           (StatusCode hresp = 200))\<rparr>)"
proof -
  let ?s1 = "s\<lparr>upCache := Some (upCacheOnce s)\<rparr>"
  have sem: "held (semaphore ?s1) < slots (semaphore ?s1)" using assms(3) by simp
  have srv: "checkPermissionOnServer L ?s1 d user dm permission =
     (Returns (StatusCode hresp = 200, None),
      ?s1\<lparr>outbound := outbound s @ [permissionCheckRequest L d user dm permission]\<rparr>)"
    using assms(5,6) by (auto simp add: checkPermissionOnServer_call [OF sem assms(4)])
  show ?thesis
    by (simp add: checkPermission_def fetchDB_Some [OF assms(1)] LRUCache_Get_miss [OF assms(2)] srv)
       (simp add: upCacheOnce_def)
qed


lemma checkPermission_miss_outbound:
  assumes "db s = Some d"
    and "map_of (items (upCacheOnce s)) (userPermission (permissionsVersion d) user dm permission) = None"
    and "held (semaphore s) < slots (semaphore s)" and "urlParse L (permissionCheckURL d) = None"
  shows "outbound (snd (checkPermission L s user dm permission)) =
           outbound s @ [permissionCheckRequest L d user dm permission]"
proof -
  let ?s1 = "s\<lparr>upCache := Some (upCacheOnce s)\<rparr>"
  have sem: "held (semaphore ?s1) < slots (semaphore ?s1)" using assms(3) by simp
  show ?thesis
    by (cases "httpClient s (outbound s) (permissionCheckRequest L d user dm permission)")
       (simp_all add: checkPermission_def fetchDB_Some [OF assms(1)] LRUCache_Get_miss [OF assms(2)]
          checkPermissionOnServer_call [OF sem assms(4)])
qed

lemma UpdateDB_keeps:
  "upCache (UpdateDB s c) = upCache s" "authCache (UpdateDB s c) = authCache s"
  "clientCertCache (UpdateDB s c) = clientCertCache s"
  "outbound (UpdateDB s c) = outbound s" "semaphore (UpdateDB s c) = semaphore s"
  "httpClient (UpdateDB s c) = httpClient s"
  by (simp_all add: UpdateDB_def updateDBLocked_def Let_def)

text \<open>
  C4. With a snapshot current, \<open>K\<close> the key (permissions version, user, domain,
  permission) and \<open>R\<close> the request \<open>checkPermissionOnServer\<close> builds: on a hit
  \<open>checkPermission\<close> returns the cached boolean and makes no request. On a miss, when a
  semaphore slot is free and the permission-check URL parses, it makes exactly one
  request, \<open>R\<close>, which carries the basic authentication of the snapshot's special user
  and special password and the subject only in its query. When the answer is 200 or 401
  the verdict (true for 200) is returned and stored under \<open>K\<close>, so the same lookup on the
  resulting service returns it again with no further request. After an update to another
  permissions version whose key \<open>K'\<close> was not in the cache, \<open>K'\<close> is still absent and the
  same lookup makes a request again.
\<close>

theorem C4_permission_cache:
  assumes "db s = Some d"
    and "K = userPermission (permissionsVersion d) user dm permission"
    and "R = permissionCheckRequest L d user dm permission"
  shows "(map_of (items (upCacheOnce s)) K = Some b \<longrightarrow>
            fst (checkPermission L s user dm permission) = Returns (b, None)
            \<and> outbound (snd (checkPermission L s user dm permission)) = outbound s)
     \<and> (map_of (items (upCacheOnce s)) K = None
          \<and> held (semaphore s) < slots (semaphore s) \<and> urlParse L (permissionCheckURL d) = None
          \<longrightarrow> outbound (snd (checkPermission L s user dm permission)) = outbound s @ [R])
     \<and> (map_of (items (upCacheOnce s)) K = None
          \<and> held (semaphore s) < slots (semaphore s) \<and> urlParse L (permissionCheckURL d) = None
          \<and> httpClient s (outbound s) R = Inr hresp
          \<and> (StatusCode hresp = 200 \<or> StatusCode hresp = 401)
          \<and> checkPermission L s user dm permission = (res, t) \<longrightarrow>
            res = Returns (StatusCode hresp = 200, None)
            \<and> outbound t = outbound s @ [R]
            \<and> Header R ''Authorization'' =
                  Some (''Basic '' @ base64 L (specialUser d @ '':'' @ specialPassword d))
            \<and> RawQuery R = Some [(''domain'', dm), (''permission'', permission), (''user'', user)]
            \<and> map_of (items (upCacheOnce t)) K = Some (StatusCode hresp = 200)
            \<and> fst (checkPermission L t user dm permission) = Returns (StatusCode hresp = 200, None)
            \<and> outbound (snd (checkPermission L t user dm permission)) = outbound t
            \<and> (permissionsVersion (cacheToCredsDB c') \<noteq> permissionsVersion d
                 \<and> K' = userPermission (permissionsVersion (cacheToCredsDB c')) user dm permission
                 \<and> map_of (items (upCacheOnce s)) K' = None
                 \<and> urlParse L (permissionCheckURL (cacheToCredsDB c')) = None \<longrightarrow>
                   map_of (items (upCacheOnce (UpdateDB t c'))) K' = None
                   \<and> outbound (snd (checkPermission L (UpdateDB t c') user dm permission)) =
                       outbound t @ [permissionCheckRequest L (cacheToCredsDB c') user dm permission]))"
proof (intro conjI impI)
  assume "map_of (items (upCacheOnce s)) K = Some b"
  then have h: "map_of (items (upCacheOnce s))
                  (userPermission (permissionsVersion d) user dm permission) = Some b"
    by (simp add: assms(2))
  show "fst (checkPermission L s user dm permission) = Returns (b, None)"
    and "outbound (snd (checkPermission L s user dm permission)) = outbound s"
    by (simp_all add: checkPermission_hit [OF assms(1) h])
next
  assume "map_of (items (upCacheOnce s)) K = None
          \<and> held (semaphore s) < slots (semaphore s) \<and> urlParse L (permissionCheckURL d) = None"
  then show "outbound (snd (checkPermission L s user dm permission)) = outbound s @ [R]"
    by (simp add: assms(2,3) checkPermission_miss_outbound [OF assms(1)])
next
  assume a: "map_of (items (upCacheOnce s)) K = None
          \<and> held (semaphore s) < slots (semaphore s) \<and> urlParse L (permissionCheckURL d) = None
          \<and> httpClient s (outbound s) R = Inr hresp
          \<and> (StatusCode hresp = 200 \<or> StatusCode hresp = 401)
          \<and> checkPermission L s user dm permission = (res, t)"
  let ?v = "StatusCode hresp = 200"
  from a have miss: "map_of (items (upCacheOnce s))
                  (userPermission (permissionsVersion d) user dm permission) = None"
    and sem: "held (semaphore s) < slots (semaphore s)"
    and url: "urlParse L (permissionCheckURL d) = None"
    and resp: "httpClient s (outbound s) (permissionCheckRequest L d user dm permission) = Inr hresp"
    and st: "StatusCode hresp = 200 \<or> StatusCode hresp = 401"
    and run: "checkPermission L s user dm permission = (res, t)"
    by (simp_all add: assms(2,3))
  from checkPermission_miss [OF assms(1) miss sem url resp st] run
  have res: "res = Returns (?v, None)"
    and t: "t = s\<lparr>outbound := outbound s @ [permissionCheckRequest L d user dm permission],
               upCache := Some (LRUCache_Set (upCacheOnce s)
                           (userPermission (permissionsVersion d) user dm permission) ?v)\<rparr>"
    by simp_all
  show "res = Returns (?v, None)" by (rule res)
  show "outbound t = outbound s @ [R]" by (simp add: t assms(3))
  show "Header R ''Authorization'' =
          Some (''Basic '' @ base64 L (specialUser d @ '':'' @ specialPassword d))"
    by (simp add: assms(3) permissionCheckRequest_def)
  show "RawQuery R = Some [(''domain'', dm), (''permission'', permission), (''user'', user)]"
    by (simp add: assms(3) permissionCheckRequest_def)
  have db1: "db t = Some d" by (simp add: t assms(1))
  have hit1: "map_of (items (upCacheOnce t))
                (userPermission (permissionsVersion d) user dm permission) = Some ?v"
    by (simp add: t LRUCache_Set_same upCacheOnce_upd)
  then show "map_of (items (upCacheOnce t)) K = Some ?v" by (simp add: assms(2))
  show "fst (checkPermission L t user dm permission) = Returns (?v, None)"
    and "outbound (snd (checkPermission L t user dm permission)) = outbound t"
    by (simp_all add: checkPermission_hit [OF db1 hit1])
  assume b: "permissionsVersion (cacheToCredsDB c') \<noteq> permissionsVersion d
                 \<and> K' = userPermission (permissionsVersion (cacheToCredsDB c')) user dm permission
                 \<and> map_of (items (upCacheOnce s)) K' = None
                 \<and> urlParse L (permissionCheckURL (cacheToCredsDB c')) = None"
  let ?k' = "userPermission (permissionsVersion (cacheToCredsDB c')) user dm permission"
  from b have ne: "?k' \<noteq> userPermission (permissionsVersion d) user dm permission"
    and k': "K' = ?k'" and fresh: "map_of (items (upCacheOnce s)) ?k' = None"
    and url': "urlParse L (permissionCheckURL (cacheToCredsDB c')) = None"
    by auto
  have c1: "upCacheOnce (UpdateDB t c') = upCacheOnce t"
    by (simp add: upCacheOnce_def UpdateDB_keeps)
  have c2: "upCacheOnce t = LRUCache_Set (upCacheOnce s)
                           (userPermission (permissionsVersion d) user dm permission) ?v"
    by (simp add: t upCacheOnce_upd)
  have miss2: "map_of (items (upCacheOnce (UpdateDB t c'))) ?k' = None"
    unfolding c1 c2 by (rule LRUCache_Set_other_None [OF ne fresh])
  then show "map_of (items (upCacheOnce (UpdateDB t c'))) K' = None" by (simp add: k')
  have sem2: "held (semaphore (UpdateDB t c')) < slots (semaphore (UpdateDB t c'))"
    using sem by (simp add: UpdateDB_keeps t)
  from checkPermission_miss_outbound [OF db_UpdateDB miss2 sem2 url']
  show "outbound (snd (checkPermission L (UpdateDB t c') user dm permission)) =
          outbound t @ [permissionCheckRequest L (cacheToCredsDB c') user dm permission]"
    by (simp add: UpdateDB_keeps)
qed


lemma newAuth_UpdateDB_fields:
  "upCache (UpdateDB newAuth c) = None" "authCache (UpdateDB newAuth c) = None"
  "outbound (UpdateDB newAuth c) = []" "semaphore (UpdateDB newAuth c) = \<lparr>slots = 10, held = 0\<rparr>"
  "httpClient (UpdateDB newAuth c) = httpClientOf sampleLib testingRT"
  by (simp_all add: UpdateDB_keeps newAuth_def)

theorem C4_permission_cache_witness:
  "db (UpdateDB newAuth permCacheV1) = Some (cacheToCredsDB permCacheV1)
   \<and> map_of (items (upCacheOnce (UpdateDB newAuth permCacheV1)))
        (userPermission ''V1'' ''Administrator'' ''admin'' ''cluster.admin.settings!write'') = None
   \<and> httpClient (UpdateDB newAuth permCacheV1) (outbound (UpdateDB newAuth permCacheV1))
        (permissionCheckRequest sampleLib (cacheToCredsDB permCacheV1)
           ''Administrator'' ''admin'' ''cluster.admin.settings!write'') =
       Inr (respond 200 (Inl (OtherError ''unexpected end of JSON input'')))
   \<and> fst (checkPermission sampleLib (UpdateDB newAuth permCacheV1)
             ''Administrator'' ''admin'' ''cluster.admin.settings!write'') = Returns (True, None)
   \<and> outbound (snd (checkPermission sampleLib (UpdateDB newAuth permCacheV1)
             ''Administrator'' ''admin'' ''cluster.admin.settings!write'')) =
       [permissionCheckRequest sampleLib (cacheToCredsDB permCacheV1)
           ''Administrator'' ''admin'' ''cluster.admin.settings!write'']
   \<and> fst (checkPermission sampleLib
             (snd (checkPermission sampleLib (UpdateDB newAuth permCacheV1)
                ''Administrator'' ''admin'' ''cluster.admin.settings!write''))
             ''Administrator'' ''admin'' ''cluster.admin.settings!write'') = Returns (True, None)
   \<and> outbound (snd (checkPermission sampleLib
             (snd (checkPermission sampleLib (UpdateDB newAuth permCacheV1)
                ''Administrator'' ''admin'' ''cluster.admin.settings!write''))
             ''Administrator'' ''admin'' ''cluster.admin.settings!write'')) =
       [permissionCheckRequest sampleLib (cacheToCredsDB permCacheV1)
           ''Administrator'' ''admin'' ''cluster.admin.settings!write'']
   \<and> outbound (snd (checkPermission sampleLib
             (UpdateDB (snd (checkPermission sampleLib (UpdateDB newAuth permCacheV1)
                ''Administrator'' ''admin'' ''cluster.admin.settings!write'')) permCacheV2)
             ''Administrator'' ''admin'' ''cluster.admin.settings!write'')) =
       [permissionCheckRequest sampleLib (cacheToCredsDB permCacheV1)
           ''Administrator'' ''admin'' ''cluster.admin.settings!write'',
        permissionCheckRequest sampleLib (cacheToCredsDB permCacheV2)
           ''Administrator'' ''admin'' ''cluster.admin.settings!write'']
   \<and> httpClient (UpdateDB newAuth permCacheV1) (outbound (UpdateDB newAuth permCacheV1))
        (permissionCheckRequest sampleLib (cacheToCredsDB permCacheV1)
           ''bob'' ''bucket'' ''cluster.admin.settings!write'') =
       Inr (respond 401 (Inl (OtherError ''unexpected end of JSON input'')))
   \<and> fst (checkPermission sampleLib (UpdateDB newAuth permCacheV1)
             ''bob'' ''bucket'' ''cluster.admin.settings!write'') = Returns (False, None)
   \<and> fst (checkPermission sampleLib
             (snd (checkPermission sampleLib (UpdateDB newAuth permCacheV1)
                ''bob'' ''bucket'' ''cluster.admin.settings!write''))
             ''bob'' ''bucket'' ''cluster.admin.settings!write'') = Returns (False, None)
   \<and> outbound (snd (checkPermission sampleLib
             (snd (checkPermission sampleLib (UpdateDB newAuth permCacheV1)
                ''bob'' ''bucket'' ''cluster.admin.settings!write''))
             ''bob'' ''bucket'' ''cluster.admin.settings!write'')) =
       [permissionCheckRequest sampleLib (cacheToCredsDB permCacheV1)
           ''bob'' ''bucket'' ''cluster.admin.settings!write'']"
proof -
  let ?S = "UpdateDB newAuth permCacheV1"
  let ?D = "cacheToCredsDB permCacheV1"
  let ?u = "''Administrator''" and ?dm = "''admin''" and ?p = "''cluster.admin.settings!write''"
  have d: "db ?S = Some ?D" by (rule db_UpdateDB)
  have v1: "permissionsVersion ?D = ''V1''" and v2: "permissionsVersion (cacheToCredsDB permCacheV2) = ''V2''"
    by (simp_all add: cacheToCredsDB_def permCacheV1_def permCacheV2_def Let_def)
  have K: "userPermission ''V1'' ?u ?dm ?p = userPermission (permissionsVersion ?D) ?u ?dm ?p"
    by (simp add: v1)
  have c: "upCacheOnce ?S = NewLRUCache 1024"
    by (simp add: upCacheOnce_def newAuth_UpdateDB_fields)
  have miss: "map_of (items (upCacheOnce ?S)) k = None" for k
    by (simp add: c NewLRUCache_def)
  have sem: "held (semaphore ?S) < slots (semaphore ?S)"
    by (simp add: newAuth_UpdateDB_fields)
  have url: "urlParse sampleLib u = None" for u by (simp add: sampleLib_def)
  have resp: "httpClient ?S (outbound ?S) (permissionCheckRequest sampleLib ?D ?u ?dm ?p) =
       Inr (respond 200 (Inl (OtherError ''unexpected end of JSON input'')))"
    by (simp add: newAuth_UpdateDB_fields testingRT_def permissionCheckRequest_def
          permissionsRoundTrip_def sampleLib_def)
  have st: "StatusCode (respond 200 (Inl (OtherError ''unexpected end of JSON input''))) = 200"
    by (simp add: respond_def)
  have o: "outbound ?S = []" by (simp add: newAuth_UpdateDB_fields)
  have run: "checkPermission sampleLib ?S ?u ?dm ?p =
               (fst (checkPermission sampleLib ?S ?u ?dm ?p), snd (checkPermission sampleLib ?S ?u ?dm ?p))"
    by simp
  from C4_permission_cache [OF d K refl, where hresp = "respond 200 (Inl (OtherError ''unexpected end of JSON input''))"
         and res = "fst (checkPermission sampleLib ?S ?u ?dm ?p)"
         and t = "snd (checkPermission sampleLib ?S ?u ?dm ?p)"
         and L = sampleLib and c' = permCacheV2 and K' = "userPermission ''V2'' ?u ?dm ?p"]
       miss sem url resp st run v1 v2 o d
  have allow: "fst (checkPermission sampleLib ?S ?u ?dm ?p) = Returns (True, None)
     \<and> outbound (snd (checkPermission sampleLib ?S ?u ?dm ?p)) =
         [permissionCheckRequest sampleLib ?D ?u ?dm ?p]
     \<and> fst (checkPermission sampleLib (snd (checkPermission sampleLib ?S ?u ?dm ?p)) ?u ?dm ?p) =
         Returns (True, None)
     \<and> outbound (snd (checkPermission sampleLib (snd (checkPermission sampleLib ?S ?u ?dm ?p))
                        ?u ?dm ?p)) =
         [permissionCheckRequest sampleLib ?D ?u ?dm ?p]
     \<and> outbound (snd (checkPermission sampleLib
             (UpdateDB (snd (checkPermission sampleLib ?S ?u ?dm ?p)) permCacheV2) ?u ?dm ?p)) =
         [permissionCheckRequest sampleLib ?D ?u ?dm ?p,
          permissionCheckRequest sampleLib (cacheToCredsDB permCacheV2) ?u ?dm ?p]"
    by simp
  let ?b = "''bob''" and ?bk = "''bucket''"
  have Kb: "userPermission ''V1'' ?b ?bk ?p = userPermission (permissionsVersion ?D) ?b ?bk ?p"
    by (simp add: v1)
  have respb: "httpClient ?S (outbound ?S) (permissionCheckRequest sampleLib ?D ?b ?bk ?p) =
       Inr (respond 401 (Inl (OtherError ''unexpected end of JSON input'')))"
    by (simp add: newAuth_UpdateDB_fields testingRT_def permissionCheckRequest_def
          permissionsRoundTrip_def sampleLib_def)
  have stb: "StatusCode (respond 401 (Inl (OtherError ''unexpected end of JSON input''))) = 401"
    by (simp add: respond_def)
  have runb: "checkPermission sampleLib ?S ?b ?bk ?p =
               (fst (checkPermission sampleLib ?S ?b ?bk ?p), snd (checkPermission sampleLib ?S ?b ?bk ?p))"
    by simp
  from C4_permission_cache [OF d Kb refl, where hresp = "respond 401 (Inl (OtherError ''unexpected end of JSON input''))"
         and res = "fst (checkPermission sampleLib ?S ?b ?bk ?p)"
         and t = "snd (checkPermission sampleLib ?S ?b ?bk ?p)"
         and L = sampleLib and c' = permCacheV1 and K' = "userPermission ''V1'' ?b ?bk ?p"]
       miss sem url respb stb runb o
  have deny: "fst (checkPermission sampleLib ?S ?b ?bk ?p) = Returns (False, None)
     \<and> fst (checkPermission sampleLib (snd (checkPermission sampleLib ?S ?b ?bk ?p)) ?b ?bk ?p) =
         Returns (False, None)
     \<and> outbound (snd (checkPermission sampleLib (snd (checkPermission sampleLib ?S ?b ?bk ?p))
                        ?b ?bk ?p)) =
         [permissionCheckRequest sampleLib ?D ?b ?bk ?p]"
    by simp
  from allow deny d miss resp respb show ?thesis by simp
qed

section \<open>The auth cache\<close>

lemma authCacheOnce_upd: "authCacheOnce (s\<lparr>authCache := Some c\<rparr>) = c"
  by (simp add: authCacheOnce_def)

lemma authCacheOnce_upd_outbound:
  "authCacheOnce (s\<lparr>authCache := Some c, outbound := x\<rparr>) = c"
  by (simp add: authCacheOnce_def)

lemma executeReqAndGetCreds_state:
  "snd (executeReqAndGetCreds s d req) = s\<lparr>outbound := outbound s @ [req]\<rparr>"
  by (simp add: executeReqAndGetCreds_def httpClient_Do_def split: sum.splits prod.splits)

lemma executeReqAndGetCreds_shape:
  "(\<exists>e. fst (executeReqAndGetCreds s d req) = (None, Some e)) \<or>
   (\<exists>c. fst (executeReqAndGetCreds s d req) = (Some c, None))"
  by (auto simp add: executeReqAndGetCreds_def httpClient_Do_def split: sum.splits prod.splits)

lemma executeReqAndGetCreds_semaphore:
  "fst (executeReqAndGetCreds (s\<lparr>semaphore := m\<rparr>) d req) = fst (executeReqAndGetCreds s d req)"
  by (simp add: executeReqAndGetCreds_def httpClient_Do_def split: sum.splits prod.splits)

lemma executeReqAndGetCreds_401:
  "httpClient s (outbound s) req = Inr hresp \<Longrightarrow> StatusCode hresp = 401 \<Longrightarrow>
     fst (executeReqAndGetCreds s d req) = (None, Some ErrNoAuth)"
  by (simp add: executeReqAndGetCreds_def httpClient_Do_def)

lemma executeReqAndGetCreds_200:
  "httpClient s (outbound s) req = Inr hresp \<Longrightarrow> StatusCode hresp = 200 \<Longrightarrow>
   RespBody hresp = Inr (u, dm) \<Longrightarrow>
     fst (executeReqAndGetCreds s d req) = (Some \<lparr>name = u, domain = dm, password = [], db = d\<rparr>, None)"
  by (simp add: executeReqAndGetCreds_def httpClient_Do_def)

lemma verifyPasswordOnServer_call:
  assumes "db s = Some d" and "authCheckURL d \<noteq> []"
    and "held (semaphore s) < slots (semaphore s)"
    and "urlParse L (authCheckURL d) = None" and "urlParse L ''http://host/'' = None"
  shows "verifyPasswordOnServer L s user pwd =
     (Returns (fst (executeReqAndGetCreds s d (authCheckRequest L d user pwd))),
      s\<lparr>outbound := outbound s @ [authCheckRequest L d user pwd]\<rparr>)"
proof -
  let ?R = "authCheckRequest L d user pwd"
  let ?s1 = "s\<lparr>semaphore := semaphore s\<lparr>held := Suc (held (semaphore s))\<rparr>\<rparr>"
  have r0: "NewRequest L ''GET'' ''http://host/'' [] =
             Inr \<lparr>Method = ''GET'', URL = ''http://host/'', RawQuery = None,
                  Header = Map.empty, Body = [], TLS = None\<rparr>"
    using assms(5) by (simp add: NewRequest_def)
  have r1: "NewRequest L ''POST'' (authCheckURL d) [] =
             Inr \<lparr>Method = ''POST'', URL = authCheckURL d, RawQuery = None,
                  Header = Map.empty, Body = [], TLS = None\<rparr>"
    using assms(4) by (simp add: NewRequest_def)
  have h: "v \<noteq> [] \<Longrightarrow>
           copyHeader ''Authorization'' [''Authorization'' \<mapsto> v]
             (copyHeader ''Cookie'' [''Authorization'' \<mapsto> v]
               (copyHeader ''ns-server-auth-token'' [''Authorization'' \<mapsto> v]
                 (copyHeader tokenHeader [''Authorization'' \<mapsto> v] Map.empty))) =
           [''Authorization'' \<mapsto> v]" for v
    by (simp add: copyHeader_def Header_Get_def Header_Set_def tokenHeader_def Let_def)
  obtain r t where ex: "executeReqAndGetCreds ?s1 d ?R = (r, t)"
    by (cases "executeReqAndGetCreds ?s1 d ?R")
  have "fst (executeReqAndGetCreds ?s1 d ?R) = fst (executeReqAndGetCreds s d ?R)"
    by (rule executeReqAndGetCreds_semaphore)
  with ex have r: "r = fst (executeReqAndGetCreds s d ?R)" by simp
  have t: "t = ?s1\<lparr>outbound := outbound s @ [?R]\<rparr>"
    using ex executeReqAndGetCreds_state [of ?s1 d ?R] by simp
  from executeReqAndGetCreds_shape [of s d ?R] r
  have shape: "(\<exists>e. r = (None, Some e)) \<or> (\<exists>c. r = (Some c, None))" by simp
  have v: "VerifyOnServer L s [''Authorization'' \<mapsto> ''Basic '' @ base64 L (user @ '':'' @ pwd)] =
             (Returns r, s\<lparr>outbound := outbound s @ [?R]\<rparr>)"
    using shape assms(2) ex [unfolded authCheckRequest_def]
    by (auto simp add: VerifyOnServer_def fetchDB_Some [OF assms(1)]
          semaphore_wait_free [OF assms(3)] r1 h Let_def t semaphore_signal_wait
          authCheckRequest_def)
  show ?thesis
    using v by (simp add: verifyPasswordOnServer_def r0 SetBasicAuth_def Header_Set_def r)
qed


lemma VerifyPassword_miss:
  assumes "db s = Some d" and "\<not> verifySpecialCreds d user pwd"
    and "map_of (items (authCacheOnce s)) (userPassword (authVersion d) user pwd) = None"
    and "authCheckURL d \<noteq> []" and "held (semaphore s) < slots (semaphore s)"
    and "urlParse L (authCheckURL d) = None" and "urlParse L ''http://host/'' = None"
  shows "VerifyPassword L s user pwd =
     (case fst (executeReqAndGetCreds s d (authCheckRequest L d user pwd)) of
        (rv, Some err) \<Rightarrow>
          (Returns (None, Some err),
           s\<lparr>authCache := Some (authCacheOnce s),
             outbound := outbound s @ [authCheckRequest L d user pwd]\<rparr>)
      | (None, None) \<Rightarrow>
          (Panics NilDereference,
           s\<lparr>authCache := Some (authCacheOnce s),
             outbound := outbound s @ [authCheckRequest L d user pwd]\<rparr>)
      | (Some rv, None) \<Rightarrow>
          (Returns (Some rv, None),
           if domain rv = ''admin'' \<or> domain rv = ''local''
           then s\<lparr>authCache := Some (LRUCache_Set (authCacheOnce s)
                                      (userPassword (authVersion d) user pwd)
                                      (userIdentity (name rv) (domain rv))),
                  outbound := outbound s @ [authCheckRequest L d user pwd]\<rparr>
           else s\<lparr>authCache := Some (authCacheOnce s),
                  outbound := outbound s @ [authCheckRequest L d user pwd]\<rparr>))"
proof -
  let ?s1 = "s\<lparr>authCache := Some (authCacheOnce s)\<rparr>"
  have d1: "db ?s1 = Some d" using assms(1) by simp
  have sem: "held (semaphore ?s1) < slots (semaphore ?s1)" using assms(5) by simp
  have ex: "fst (executeReqAndGetCreds ?s1 d req) = fst (executeReqAndGetCreds s d req)" for req
    by (simp add: executeReqAndGetCreds_def httpClient_Do_def split: sum.splits prod.splits)
  have srv: "verifyPasswordOnServer L ?s1 user pwd =
     (Returns (fst (executeReqAndGetCreds s d (authCheckRequest L d user pwd))),
      ?s1\<lparr>outbound := outbound s @ [authCheckRequest L d user pwd]\<rparr>)"
    using verifyPasswordOnServer_call [OF d1 assms(4) sem assms(6,7), of user pwd]
    by (simp add: ex)
  have once: "authCacheOnce (?s1\<lparr>outbound := x\<rparr>) = authCacheOnce s" for x
    by (simp add: authCacheOnce_def)
  obtain rv err where r: "fst (executeReqAndGetCreds s d (authCheckRequest L d user pwd)) = (rv, err)"
    by (cases "fst (executeReqAndGetCreds s d (authCheckRequest L d user pwd))")
  show ?thesis
    using assms(2)
    by (cases rv; cases err)
       (simp_all add: VerifyPassword_def fetchDB_Some [OF assms(1)] LRUCache_Get_miss [OF assms(3)]
          srv r once)
qed


lemma VerifyPassword_miss_outbound:
  assumes "db s = Some d" and "\<not> verifySpecialCreds d user pwd"
    and "map_of (items (authCacheOnce s)) (userPassword (authVersion d) user pwd) = None"
    and "authCheckURL d \<noteq> []" and "held (semaphore s) < slots (semaphore s)"
    and "urlParse L (authCheckURL d) = None" and "urlParse L ''http://host/'' = None"
  shows "outbound (snd (VerifyPassword L s user pwd)) = outbound s @ [authCheckRequest L d user pwd]"
proof -
  obtain rv err where r: "fst (executeReqAndGetCreds s d (authCheckRequest L d user pwd)) = (rv, err)"
    by (cases "fst (executeReqAndGetCreds s d (authCheckRequest L d user pwd))")
  show ?thesis
    by (cases rv; cases err) (simp_all add: VerifyPassword_miss [OF assms] r)
qed

lemma VerifyPassword_miss_only_when:
  assumes "db s = Some d" and "\<not> verifySpecialCreds d user pwd"
    and "map_of (items (authCacheOnce s)) (userPassword (authVersion d) user pwd) = None"
    and "authCheckURL d \<noteq> []" and "held (semaphore s) < slots (semaphore s)"
    and "urlParse L (authCheckURL d) = None" and "urlParse L ''http://host/'' = None"
    and "map_of (items (authCacheOnce (snd (VerifyPassword L s user pwd))))
           (userPassword (authVersion d) user pwd) \<noteq> None"
  shows "\<exists>c. fst (VerifyPassword L s user pwd) = Returns (Some c, None)
             \<and> (domain c = ''admin'' \<or> domain c = ''local'')"
proof -
  obtain rv err where r: "fst (executeReqAndGetCreds s d (authCheckRequest L d user pwd)) = (rv, err)"
    by (cases "fst (executeReqAndGetCreds s d (authCheckRequest L d user pwd))")
  show ?thesis
    using assms(8) assms(3)
    by (cases rv; cases err)
       (auto simp add: VerifyPassword_miss [OF assms(1-7)] r authCacheOnce_upd
          authCacheOnce_upd_outbound split: if_splits)
qed

lemma VerifyPassword_no_url:
  assumes "db s = Some d" and "\<not> verifySpecialCreds d user pwd"
    and "map_of (items (authCacheOnce s)) (userPassword (authVersion d) user pwd) = None"
    and "authCheckURL d = []" and "urlParse L ''http://host/'' = None"
  shows "VerifyPassword L s user pwd =
           (Returns (None, Some ErrNoAuth), s\<lparr>authCache := Some (authCacheOnce s)\<rparr>)"
proof -
  have r0: "NewRequest L ''GET'' ''http://host/'' [] =
             Inr \<lparr>Method = ''GET'', URL = ''http://host/'', RawQuery = None,
                  Header = Map.empty, Body = [], TLS = None\<rparr>"
    using assms(5) by (simp add: NewRequest_def)
  have srv: "verifyPasswordOnServer L (s\<lparr>authCache := Some (authCacheOnce s)\<rparr>) user pwd =
               (Returns (None, Some ErrNoAuth), s\<lparr>authCache := Some (authCacheOnce s)\<rparr>)"
    using assms(1,4) by (simp add: verifyPasswordOnServer_def r0 VerifyOnServer_def fetchDB_Some)
  show ?thesis
    using assms(2)
    by (simp add: VerifyPassword_def fetchDB_Some [OF assms(1)] LRUCache_Get_miss [OF assms(3)] srv)
qed


lemma VerifyPassword_host_url:
  assumes "db s = Some d" and "\<not> verifySpecialCreds d user pwd"
    and "map_of (items (authCacheOnce s)) (userPassword (authVersion d) user pwd) = None"
    and "urlParse L ''http://host/'' = Some e"
  shows "VerifyPassword L s user pwd =
           (Panics (MustNotHappen e), s\<lparr>authCache := Some (authCacheOnce s)\<rparr>)"
  using assms(2,4)
  by (simp add: VerifyPassword_def fetchDB_Some [OF assms(1)] LRUCache_Get_miss [OF assms(3)]
        verifyPasswordOnServer_def NewRequest_def)

lemma VerifyPassword_blocked:
  assumes "db s = Some d" and "\<not> verifySpecialCreds d user pwd"
    and "map_of (items (authCacheOnce s)) (userPassword (authVersion d) user pwd) = None"
    and "authCheckURL d \<noteq> []" and "\<not> held (semaphore s) < slots (semaphore s)"
    and "urlParse L ''http://host/'' = None"
  shows "VerifyPassword L s user pwd = (Blocks, s\<lparr>authCache := Some (authCacheOnce s)\<rparr>)"
proof -
  have srv: "verifyPasswordOnServer L (s\<lparr>authCache := Some (authCacheOnce s)\<rparr>) user pwd =
               (Blocks, s\<lparr>authCache := Some (authCacheOnce s)\<rparr>)"
    using assms(1,4,5,6)
    by (simp add: verifyPasswordOnServer_def NewRequest_def VerifyOnServer_def fetchDB_Some
          semaphore_wait_def)
  show ?thesis
    using assms(2)
    by (simp add: VerifyPassword_def fetchDB_Some [OF assms(1)] LRUCache_Get_miss [OF assms(3)] srv)
qed

lemma VerifyPassword_bad_url:
  assumes "db s = Some d" and "\<not> verifySpecialCreds d user pwd"
    and "map_of (items (authCacheOnce s)) (userPassword (authVersion d) user pwd) = None"
    and "authCheckURL d \<noteq> []" and "held (semaphore s) < slots (semaphore s)"
    and "urlParse L (authCheckURL d) = Some e" and "urlParse L ''http://host/'' = None"
  shows "VerifyPassword L s user pwd =
           (Panics (PanicError e), s\<lparr>authCache := Some (authCacheOnce s)\<rparr>)"
proof -
  let ?s1 = "s\<lparr>authCache := Some (authCacheOnce s)\<rparr>"
  have sem: "held (semaphore ?s1) < slots (semaphore ?s1)" using assms(5) by simp
  have srv: "verifyPasswordOnServer L ?s1 user pwd = (Panics (PanicError e), ?s1)"
    using assms(1,4,6,7)
    by (simp add: verifyPasswordOnServer_def NewRequest_def VerifyOnServer_def fetchDB_Some
          semaphore_wait_free [OF assms(5)] semaphore_signal_wait Let_def)
  show ?thesis
    using assms(2)
    by (simp add: VerifyPassword_def fetchDB_Some [OF assms(1)] LRUCache_Get_miss [OF assms(3)] srv)
qed


text \<open>
  C5 (as amended). With a snapshot current, credentials that are not the special ones and
  are not in the auth cache under \<open>K\<close>, the key (auth version, user, password),
  \<open>VerifyPassword\<close> does exactly one of five things. If the fixed URL
  \<open>http://host/\<close> does not parse it panics ("Must not happen"); otherwise, if the
  auth-check URL is empty it returns \<open>ErrNoAuth\<close>; otherwise, if no semaphore slot is
  free it waits; otherwise, if the auth-check URL does not parse it panics with the
  parse error. In these four cases no request is made and the cache keeps its entries.
  In the fifth case (both URLs parse, the auth-check URL is not empty, a slot is free)
  it makes exactly one request, \<open>R\<close>; an entry under \<open>K\<close> afterwards means
  credentials were returned whose domain is "admin" or "local". On the answer 401 it
  returns \<open>ErrNoAuth\<close>, the cache has the entries it had, and the same call on the
  resulting service makes the request again. On the answer 200 with user and domain it
  returns them, and afterwards the cache holds them under \<open>K\<close> exactly if the domain
  is "admin" or "local".
\<close>

theorem C5_auth_cache_miss:
  assumes "db s = Some d" and "\<not> verifySpecialCreds d user pwd"
    and "K = userPassword (authVersion d) user pwd"
    and "map_of (items (authCacheOnce s)) K = None"
    and "R = authCheckRequest L d user pwd"
    and "VerifyPassword L s user pwd = (res, t)"
  shows "(urlParse L ''http://host/'' = Some e \<longrightarrow>
            res = Panics (MustNotHappen e) \<and> outbound t = outbound s
            \<and> items (authCacheOnce t) = items (authCacheOnce s))
     \<and> (urlParse L ''http://host/'' = None \<and> authCheckURL d = [] \<longrightarrow>
            res = Returns (None, Some ErrNoAuth) \<and> outbound t = outbound s
            \<and> items (authCacheOnce t) = items (authCacheOnce s))
     \<and> (urlParse L ''http://host/'' = None \<and> authCheckURL d \<noteq> []
          \<and> \<not> held (semaphore s) < slots (semaphore s) \<longrightarrow>
            res = Blocks \<and> outbound t = outbound s
            \<and> items (authCacheOnce t) = items (authCacheOnce s))
     \<and> (urlParse L ''http://host/'' = None \<and> authCheckURL d \<noteq> []
          \<and> held (semaphore s) < slots (semaphore s)
          \<and> urlParse L (authCheckURL d) = Some e \<longrightarrow>
            res = Panics (PanicError e) \<and> outbound t = outbound s
            \<and> items (authCacheOnce t) = items (authCacheOnce s))
     \<and> (urlParse L ''http://host/'' = None \<and> authCheckURL d \<noteq> []
          \<and> held (semaphore s) < slots (semaphore s)
          \<and> urlParse L (authCheckURL d) = None \<longrightarrow>
            outbound t = outbound s @ [R]
            \<and> (map_of (items (authCacheOnce t)) K \<noteq> None \<longrightarrow>
                  (\<exists>c. res = Returns (Some c, None)
                       \<and> (domain c = ''admin'' \<or> domain c = ''local'')))
            \<and> (httpClient s (outbound s) R = Inr hresp \<and> StatusCode hresp = 401 \<longrightarrow>
                  res = Returns (None, Some ErrNoAuth)
                  \<and> items (authCacheOnce t) = items (authCacheOnce s)
                  \<and> outbound (snd (VerifyPassword L t user pwd)) = outbound t @ [R])
            \<and> (httpClient s (outbound s) R = Inr hresp \<and> StatusCode hresp = 200
                 \<and> RespBody hresp = Inr (u, dm) \<longrightarrow>
                  res = Returns (Some \<lparr>name = u, domain = dm, password = [], db = d\<rparr>, None)
                  \<and> map_of (items (authCacheOnce t)) K =
                      (if dm = ''admin'' \<or> dm = ''local'' then Some (userIdentity u dm) else None)))"
proof (intro conjI impI)
  note miss = assms(4) [unfolded assms(3)]
  {
    assume e: "urlParse L ''http://host/'' = Some e"
    from VerifyPassword_host_url [OF assms(1,2) miss e] assms(6)
    have "res = Panics (MustNotHappen e)" and "t = s\<lparr>authCache := Some (authCacheOnce s)\<rparr>"
      by simp_all
    then show "res = Panics (MustNotHappen e)" and "outbound t = outbound s"
      and "items (authCacheOnce t) = items (authCacheOnce s)"
      by (simp_all add: authCacheOnce_upd)
  }
  {
    assume a: "urlParse L ''http://host/'' = None \<and> authCheckURL d = []"
    from a have host: "urlParse L ''http://host/'' = None" and emp: "authCheckURL d = []"
      by simp_all
    from VerifyPassword_no_url [OF assms(1,2) miss emp host] assms(6)
    have "res = Returns (None, Some ErrNoAuth)" and "t = s\<lparr>authCache := Some (authCacheOnce s)\<rparr>"
      by simp_all
    then show "res = Returns (None, Some ErrNoAuth)" and "outbound t = outbound s"
      and "items (authCacheOnce t) = items (authCacheOnce s)"
      by (simp_all add: authCacheOnce_upd)
  }
  {
    assume a: "urlParse L ''http://host/'' = None \<and> authCheckURL d \<noteq> []
          \<and> \<not> held (semaphore s) < slots (semaphore s)"
    from a have host: "urlParse L ''http://host/'' = None" and ne: "authCheckURL d \<noteq> []"
      and full: "\<not> held (semaphore s) < slots (semaphore s)"
      by simp_all
    from VerifyPassword_blocked [OF assms(1,2) miss ne full host] assms(6)
    have "res = Blocks" and "t = s\<lparr>authCache := Some (authCacheOnce s)\<rparr>"
      by simp_all
    then show "res = Blocks" and "outbound t = outbound s"
      and "items (authCacheOnce t) = items (authCacheOnce s)"
      by (simp_all add: authCacheOnce_upd)
  }
  {
    assume a: "urlParse L ''http://host/'' = None \<and> authCheckURL d \<noteq> []
          \<and> held (semaphore s) < slots (semaphore s)
          \<and> urlParse L (authCheckURL d) = Some e"
    from a have host: "urlParse L ''http://host/'' = None" and ne: "authCheckURL d \<noteq> []"
      and sem: "held (semaphore s) < slots (semaphore s)"
      and bad: "urlParse L (authCheckURL d) = Some e"
      by simp_all
    from VerifyPassword_bad_url [OF assms(1,2) miss ne sem bad host] assms(6)
    have "res = Panics (PanicError e)" and "t = s\<lparr>authCache := Some (authCacheOnce s)\<rparr>"
      by simp_all
    then show "res = Panics (PanicError e)" and "outbound t = outbound s"
      and "items (authCacheOnce t) = items (authCacheOnce s)"
      by (simp_all add: authCacheOnce_upd)
  }
  assume a: "urlParse L ''http://host/'' = None \<and> authCheckURL d \<noteq> []
          \<and> held (semaphore s) < slots (semaphore s)
          \<and> urlParse L (authCheckURL d) = None"
  then have host: "urlParse L ''http://host/'' = None" and ne: "authCheckURL d \<noteq> []"
    and sem: "held (semaphore s) < slots (semaphore s)"
    and url: "urlParse L (authCheckURL d) = None"
    by simp_all
  note vm = VerifyPassword_miss [OF assms(1,2) miss ne sem url host]
  from VerifyPassword_miss_outbound [OF assms(1,2) miss ne sem url host] assms(6)
  show o: "outbound t = outbound s @ [R]" by (simp add: assms(5))
  {
    assume "map_of (items (authCacheOnce t)) K \<noteq> None"
    with assms(6) have "map_of (items (authCacheOnce (snd (VerifyPassword L s user pwd))))
           (userPassword (authVersion d) user pwd) \<noteq> None"
      by (simp add: assms(3))
    from VerifyPassword_miss_only_when [OF assms(1,2) miss ne sem url host this] assms(6)
    show "\<exists>c. res = Returns (Some c, None) \<and> (domain c = ''admin'' \<or> domain c = ''local'')"
      by simp
  }
  {
    assume b: "httpClient s (outbound s) R = Inr hresp \<and> StatusCode hresp = 401"
    then have "fst (executeReqAndGetCreds s d (authCheckRequest L d user pwd)) = (None, Some ErrNoAuth)"
      by (simp add: assms(5) executeReqAndGetCreds_401)
    with vm assms(6)
    have r: "res = Returns (None, Some ErrNoAuth)"
      and t: "t = s\<lparr>authCache := Some (authCacheOnce s),
                  outbound := outbound s @ [authCheckRequest L d user pwd]\<rparr>"
      by simp_all
    show "res = Returns (None, Some ErrNoAuth)" by (rule r)
    show "items (authCacheOnce t) = items (authCacheOnce s)"
      by (simp add: t authCacheOnce_upd_outbound)
    have d': "db t = Some d" and sem': "held (semaphore t) < slots (semaphore t)"
      and miss': "map_of (items (authCacheOnce t)) (userPassword (authVersion d) user pwd) = None"
      using assms(1) sem miss by (simp_all add: t authCacheOnce_upd_outbound)
    from VerifyPassword_miss_outbound [OF d' assms(2) miss' ne sem' url host]
    show "outbound (snd (VerifyPassword L t user pwd)) = outbound t @ [R]"
      by (simp add: assms(5))
  }
  {
    assume b: "httpClient s (outbound s) R = Inr hresp \<and> StatusCode hresp = 200
                 \<and> RespBody hresp = Inr (u, dm)"
    then have "fst (executeReqAndGetCreds s d (authCheckRequest L d user pwd)) =
                 (Some \<lparr>name = u, domain = dm, password = [], db = d\<rparr>, None)"
      by (simp add: assms(5) executeReqAndGetCreds_200)
    with vm assms(6)
    have r: "res = Returns (Some \<lparr>name = u, domain = dm, password = [], db = d\<rparr>, None)"
      and t: "t = (if dm = ''admin'' \<or> dm = ''local''
           then s\<lparr>authCache := Some (LRUCache_Set (authCacheOnce s)
                                      (userPassword (authVersion d) user pwd)
                                      (userIdentity u dm)),
                  outbound := outbound s @ [authCheckRequest L d user pwd]\<rparr>
           else s\<lparr>authCache := Some (authCacheOnce s),
                  outbound := outbound s @ [authCheckRequest L d user pwd]\<rparr>)"
      by simp_all
    show "res = Returns (Some \<lparr>name = u, domain = dm, password = [], db = d\<rparr>, None)" by (rule r)
    show "map_of (items (authCacheOnce t)) K =
            (if dm = ''admin'' \<or> dm = ''local'' then Some (userIdentity u dm) else None)"
      using miss by (simp add: t assms(3) LRUCache_Set_same authCacheOnce_upd_outbound)
  }
qed


lemma not_special: "user \<noteq> [] \<Longrightarrow> hd user \<noteq> CHR ''@'' \<Longrightarrow> \<not> verifySpecialCreds d user pwd"
  by (simp add: verifySpecialCreds_def)

lemma authCacheOnce_newAuth: "authCacheOnce (UpdateDB newAuth c) = NewLRUCache 256"
  by (simp add: authCacheOnce_def newAuth_UpdateDB_fields)

text \<open>
  C5 as stated fails where the auth-check URL is empty, as in the configuration of
  \<open>TestServicePwd\<close>: on an auth-cache miss no request is made.
\<close>

theorem C5_counterexample:
  "db (UpdateDB newAuth servicePwdCache) = Some (cacheToCredsDB servicePwdCache)
   \<and> \<not> verifySpecialCreds (cacheToCredsDB servicePwdCache) ''asd'' ''bsd''
   \<and> map_of (items (authCacheOnce (UpdateDB newAuth servicePwdCache)))
        (userPassword (authVersion (cacheToCredsDB servicePwdCache)) ''asd'' ''bsd'') = None
   \<and> fst (VerifyPassword sampleLib (UpdateDB newAuth servicePwdCache) ''asd'' ''bsd'') =
       Returns (None, Some ErrNoAuth)
   \<and> outbound (snd (VerifyPassword sampleLib (UpdateDB newAuth servicePwdCache) ''asd'' ''bsd'')) =
       outbound (UpdateDB newAuth servicePwdCache)"
proof -
  let ?S = "UpdateDB newAuth servicePwdCache" and ?D = "cacheToCredsDB servicePwdCache"
  have d: "db ?S = Some ?D" by (rule db_UpdateDB)
  have ns: "\<not> verifySpecialCreds ?D ''asd'' ''bsd''" by (simp add: not_special)
  have miss: "map_of (items (authCacheOnce ?S)) (userPassword (authVersion ?D) ''asd'' ''bsd'') = None"
    by (simp add: authCacheOnce_newAuth NewLRUCache_def)
  have e: "authCheckURL ?D = []"
    by (simp add: cacheToCredsDB_def servicePwdCache_def zeroCache_def Let_def)
  have u: "urlParse sampleLib ''http://host/'' = None" by (simp add: sampleLib_def)
  from VerifyPassword_no_url [OF d ns miss e u] d ns miss show ?thesis by simp
qed


lemma newCache_db:
  "authCheckURL (cacheToCredsDB newCache) = ''http://127.0.0.1:9000/_auth''"
  "authVersion (cacheToCredsDB newCache) = []"
  by (simp_all add: cacheToCredsDB_def newCache_def zeroCache_def Let_def)

lemma badURLCache_db:
  "authCheckURL (cacheToCredsDB badURLCache) = '':''"
  "authVersion (cacheToCredsDB badURLCache) = []"
  by (simp_all add: cacheToCredsDB_def badURLCache_def newCache_def zeroCache_def Let_def)

theorem C5_auth_cache_miss_witness:
  "fst (VerifyPassword sampleLib (UpdateDB newAuth newCache) ''asd'' ''bsd'') =
     Returns (None, Some ErrNoAuth)
   \<and> outbound (snd (VerifyPassword sampleLib (UpdateDB newAuth newCache) ''asd'' ''bsd'')) =
       [authCheckRequest sampleLib (cacheToCredsDB newCache) ''asd'' ''bsd'']
   \<and> items (authCacheOnce (snd (VerifyPassword sampleLib (UpdateDB newAuth newCache) ''asd'' ''bsd''))) = []
   \<and> outbound (snd (VerifyPassword sampleLib
                      (snd (VerifyPassword sampleLib (UpdateDB newAuth newCache) ''asd'' ''bsd''))
                      ''asd'' ''bsd'')) =
       [authCheckRequest sampleLib (cacheToCredsDB newCache) ''asd'' ''bsd'',
        authCheckRequest sampleLib (cacheToCredsDB newCache) ''asd'' ''bsd'']
   \<and> fst (VerifyPassword sampleLib (UpdateDB newAuth newCache) ''Administrator'' ''asdasd'') =
       Returns (Some \<lparr>name = ''Administrator'', domain = ''admin'', password = [],
                        db = cacheToCredsDB newCache\<rparr>, None)
   \<and> map_of (items (authCacheOnce
         (snd (VerifyPassword sampleLib (UpdateDB newAuth newCache) ''Administrator'' ''asdasd''))))
        (userPassword [] ''Administrator'' ''asdasd'') = Some (userIdentity ''Administrator'' ''admin'')
   \<and> fst (VerifyPassword sampleLib (UpdateDB newAuth newCache) ''beer-sample'' ''pwd'') =
       Returns (Some \<lparr>name = ''beer-sample'', domain = ''bucket'', password = [],
                        db = cacheToCredsDB newCache\<rparr>, None)
   \<and> map_of (items (authCacheOnce
         (snd (VerifyPassword sampleLib (UpdateDB newAuth newCache) ''beer-sample'' ''pwd''))))
        (userPassword [] ''beer-sample'' ''pwd'') = None
   \<and> urlParse strictLib (authCheckURL (cacheToCredsDB badURLCache)) =
       Some (OtherError ''missing protocol scheme'')
   \<and> fst (VerifyPassword strictLib (UpdateDB newAuth badURLCache) ''asd'' ''bsd'') =
       Panics (PanicError (OtherError ''missing protocol scheme''))
   \<and> outbound (snd (VerifyPassword strictLib (UpdateDB newAuth badURLCache) ''asd'' ''bsd'')) = []
   \<and> fst (VerifyPassword sampleLib
            ((UpdateDB newAuth newCache)\<lparr>semaphore := \<lparr>slots = 10, held = 10\<rparr>\<rparr>)
            ''asd'' ''bsd'') = Blocks
   \<and> outbound (snd (VerifyPassword sampleLib
            ((UpdateDB newAuth newCache)\<lparr>semaphore := \<lparr>slots = 10, held = 10\<rparr>\<rparr>)
            ''asd'' ''bsd'')) = []
   \<and> fst (VerifyPassword (sampleLib\<lparr>urlParse := (\<lambda>u. Some (OtherError ''bad''))\<rparr>)
            (UpdateDB newAuth newCache) ''asd'' ''bsd'') =
       Panics (MustNotHappen (OtherError ''bad''))
   \<and> outbound (snd (VerifyPassword (sampleLib\<lparr>urlParse := (\<lambda>u. Some (OtherError ''bad''))\<rparr>)
            (UpdateDB newAuth newCache) ''asd'' ''bsd'')) = []"
proof -
  let ?S = "UpdateDB newAuth newCache" and ?D = "cacheToCredsDB newCache"
  let ?B = "UpdateDB newAuth badURLCache" and ?E = "cacheToCredsDB badURLCache"
  let ?F = "(UpdateDB newAuth newCache)\<lparr>semaphore := \<lparr>slots = 10, held = 10\<rparr>\<rparr>"
  let ?M = "sampleLib\<lparr>urlParse := (\<lambda>u. Some (OtherError ''bad''))\<rparr>"
  have d: "db ?S = Some ?D" by (rule db_UpdateDB)
  have dB: "db ?B = Some ?E" by (rule db_UpdateDB)
  have dF: "db ?F = Some ?D" by (simp add: db_UpdateDB)
  have K: "userPassword [] u p = userPassword (authVersion ?D) u p" for u p
    by (simp add: newCache_db)
  have miss: "map_of (items (authCacheOnce ?S)) k = None" for k
    by (simp add: authCacheOnce_newAuth NewLRUCache_def)
  have missB: "map_of (items (authCacheOnce ?B)) k = None" for k
    by (simp add: authCacheOnce_newAuth NewLRUCache_def)
  have missF: "map_of (items (authCacheOnce ?F)) k = None" for k
    by (simp add: authCacheOnce_def newAuth_UpdateDB_fields NewLRUCache_def)
  have it: "items (authCacheOnce ?S) = []" by (simp add: authCacheOnce_newAuth NewLRUCache_def)
  have url: "urlParse sampleLib u = None" for u by (simp add: sampleLib_def)
  have urlB: "urlParse strictLib ''http://host/'' = None"
    "urlParse strictLib '':'' = Some (OtherError ''missing protocol scheme'')"
    by (simp_all add: strictLib_def sampleLib_def)
  have urlM: "urlParse ?M ''http://host/'' = Some (OtherError ''bad'')" by simp
  have sem: "held (semaphore ?S) < slots (semaphore ?S)" by (simp add: newAuth_UpdateDB_fields)
  have semB: "held (semaphore ?B) < slots (semaphore ?B)" by (simp add: newAuth_UpdateDB_fields)
  have semF: "\<not> held (semaphore ?F) < slots (semaphore ?F)" by simp
  have o: "outbound ?S = []" by (simp add: newAuth_UpdateDB_fields)
  have oB: "outbound ?B = []" by (simp add: newAuth_UpdateDB_fields)
  have oF: "outbound ?F = []" by (simp add: newAuth_UpdateDB_fields)
  have run: "VerifyPassword L s u p =
               (fst (VerifyPassword L s u p), snd (VerifyPassword L s u p))" for L s u p
    by simp
  have r1: "httpClient ?S (outbound ?S) (authCheckRequest sampleLib ?D ''asd'' ''bsd'') =
              Inr (respond 401 (Inl (OtherError ''unexpected end of JSON input'')))"
    by (simp add: newAuth_UpdateDB_fields testingRT_def authCheckRequest_def authRoundTrip_def
          sampleLib_def)
  have r2: "httpClient ?S (outbound ?S) (authCheckRequest sampleLib ?D ''Administrator'' ''asdasd'') =
              Inr (respond 200 (Inr (''Administrator'', ''admin'')))"
    by (simp add: newAuth_UpdateDB_fields testingRT_def authCheckRequest_def authRoundTrip_def
          sampleLib_def)
  have r3: "httpClient ?S (outbound ?S) (authCheckRequest sampleLib ?D ''beer-sample'' ''pwd'') =
              Inr (respond 200 (Inr (''beer-sample'', ''bucket'')))"
    by (simp add: newAuth_UpdateDB_fields testingRT_def authCheckRequest_def authRoundTrip_def
          sampleLib_def)
  have st: "StatusCode (respond 401 b) = 401" "StatusCode (respond 200 b) = 200"
    "RespBody (respond 200 b) = b" for b
    by (simp_all add: respond_def)
  have ns: "\<not> verifySpecialCreds dd ''asd'' ''bsd''"
    "\<not> verifySpecialCreds dd ''Administrator'' ''asdasd''"
    "\<not> verifySpecialCreds dd ''beer-sample'' ''pwd''" for dd
    by (simp_all add: not_special)
  from C5_auth_cache_miss [OF d ns(1) K miss refl run,
         where L = sampleLib and hresp = "respond 401 (Inl (OtherError ''unexpected end of JSON input''))"]
       r1 st sem url o it newCache_db
  have w1: "fst (VerifyPassword sampleLib ?S ''asd'' ''bsd'') = Returns (None, Some ErrNoAuth)
   \<and> outbound (snd (VerifyPassword sampleLib ?S ''asd'' ''bsd'')) =
       [authCheckRequest sampleLib ?D ''asd'' ''bsd'']
   \<and> items (authCacheOnce (snd (VerifyPassword sampleLib ?S ''asd'' ''bsd''))) = []
   \<and> outbound (snd (VerifyPassword sampleLib (snd (VerifyPassword sampleLib ?S ''asd'' ''bsd''))
                      ''asd'' ''bsd'')) =
       [authCheckRequest sampleLib ?D ''asd'' ''bsd'', authCheckRequest sampleLib ?D ''asd'' ''bsd'']"
    by simp
  from C5_auth_cache_miss [OF d ns(2) K miss refl run,
         where L = sampleLib and hresp = "respond 200 (Inr (''Administrator'', ''admin''))"
           and u = "''Administrator''" and dm = "''admin''"]
       r2 st sem url o it newCache_db
  have w2: "fst (VerifyPassword sampleLib ?S ''Administrator'' ''asdasd'') =
       Returns (Some \<lparr>name = ''Administrator'', domain = ''admin'', password = [], db = ?D\<rparr>, None)
   \<and> map_of (items (authCacheOnce (snd (VerifyPassword sampleLib ?S ''Administrator'' ''asdasd''))))
        (userPassword [] ''Administrator'' ''asdasd'') = Some (userIdentity ''Administrator'' ''admin'')"
    by simp
  from C5_auth_cache_miss [OF d ns(3) K miss refl run,
         where L = sampleLib and hresp = "respond 200 (Inr (''beer-sample'', ''bucket''))"
           and u = "''beer-sample''" and dm = "''bucket''"]
       r3 st sem url o it newCache_db
  have w3: "fst (VerifyPassword sampleLib ?S ''beer-sample'' ''pwd'') =
       Returns (Some \<lparr>name = ''beer-sample'', domain = ''bucket'', password = [], db = ?D\<rparr>, None)
   \<and> map_of (items (authCacheOnce (snd (VerifyPassword sampleLib ?S ''beer-sample'' ''pwd''))))
        (userPassword [] ''beer-sample'' ''pwd'') = None"
    by simp
  from C5_auth_cache_miss [OF dB ns(1) refl missB refl run,
         where L = strictLib and e = "OtherError ''missing protocol scheme''"]
       semB urlB oB badURLCache_db
  have w4: "urlParse strictLib (authCheckURL ?E) = Some (OtherError ''missing protocol scheme'')
   \<and> fst (VerifyPassword strictLib ?B ''asd'' ''bsd'') =
       Panics (PanicError (OtherError ''missing protocol scheme''))
   \<and> outbound (snd (VerifyPassword strictLib ?B ''asd'' ''bsd'')) = []"
    by simp
  from C5_auth_cache_miss [OF dF ns(1) refl missF refl run, where L = sampleLib]
       semF url oF newCache_db
  have w5: "fst (VerifyPassword sampleLib ?F ''asd'' ''bsd'') = Blocks
   \<and> outbound (snd (VerifyPassword sampleLib ?F ''asd'' ''bsd'')) = []"
    by simp
  from C5_auth_cache_miss [OF d ns(1) refl miss refl run,
         where L = ?M and e = "OtherError ''bad''"]
       urlM o
  have w6: "fst (VerifyPassword ?M ?S ''asd'' ''bsd'') = Panics (MustNotHappen (OtherError ''bad''))
   \<and> outbound (snd (VerifyPassword ?M ?S ''asd'' ''bsd'')) = []"
    by simp
  from w1 w2 w3 w4 w5 w6 show ?thesis by simp
qed

end
